theory Spec2Isabelle
  imports Complex_Main "HOL-Library.Word" "HOL-Library.Sublist"
begin

section \<open>Shared types\<close>

type_synonym byte = "8 word"

text \<open>A Node \<open>Buffer\<close> / \<open>Uint8Array\<close> is a list of bytes.\<close>

type_synonym Buffer = "byte list"

text \<open>
  A web3.js \<open>PublicKey\<close> is determined by the 32 bytes that \<open>toBuffer()\<close> returns
  (the big-endian, zero-padded form of its number); those bytes stand for it.
\<close>

type_synonym PublicKey = "byte list"

text \<open>\<open>String.prototype.startsWith\<close>.\<close>

definition startsWith :: "string \<Rightarrow> string \<Rightarrow> bool" where
  "startsWith s p = (take (length p) s = p)"

text \<open>A natural number in decimal, as a template literal prints it.\<close>

function showNat :: "nat \<Rightarrow> string" where
  "showNat n =
     (if n < 10 then [char_of (48 + n)]
      else showNat (n div 10) @ [char_of (48 + n mod 10)])"
  by pat_completeness auto
termination
  by (relation "measure id") auto

declare showNat.simps [simp del]

text \<open>
  \<open>String.prototype.trim\<close>. A \<open>char\<close> stands for a code unit below 256; the white
  space among these is tab, line feed, vertical tab, form feed, carriage return, space and
  the no-break space.
\<close>

definition isWhiteSpace :: "char \<Rightarrow> bool" where
  "isWhiteSpace c = ((of_char c :: nat) \<in> {9, 10, 11, 12, 13, 32, 160})"

definition trim :: "string \<Rightarrow> string" where
  "trim s = rev (dropWhile isWhiteSpace (rev (dropWhile isWhiteSpace s)))"

text \<open>
  The results of the validators: \<open>{ isValid: boolean; error?: string }\<close>, which
  \<open>AddressValidation\<close> extends with \<open>type\<close> and \<open>chain\<close>.
\<close>

record Validation =
  isValid :: bool
  error :: "string option"

section \<open>Encoding primitives: bytes and hex\<close>

text \<open>One lowercase hex digit, for a value below 16.\<close>

definition hexDigit :: "nat \<Rightarrow> char" where
  "hexDigit n = char_of (if n < 10 then 48 + n else 87 + n)"

text \<open>
  Modelled from the spec: the stealth library (\<open>lib/stealth.ts\<close>) that defines
  \<open>bytesToHex\<close> and \<open>hexToBytes\<close> is not among the sources; only its tests are.
  \<open>bytesToHex\<close> maps each byte to two lowercase hex characters, no separators, empty
  input to the empty string.
\<close>

definition bytesToHex :: "byte list \<Rightarrow> string" where
  "bytesToHex bytes =
     concat (map (\<lambda>b. [hexDigit (unat b div 16), hexDigit (unat b mod 16)]) bytes)"

datatype encoding_error = InvalidEncoding

text \<open>The value of one hex digit, in either case; \<open>None\<close> for any other character.\<close>

definition hexValue :: "char \<Rightarrow> nat option" where
  "hexValue c =
     (let k = (of_char c :: nat) in
      if 48 \<le> k \<and> k \<le> 57 then Some (k - 48)
      else if 97 \<le> k \<and> k \<le> 102 then Some (k - 87)
      else if 65 \<le> k \<and> k \<le> 70 then Some (k - 55)
      else None)"

fun hexPairs :: "string \<Rightarrow> encoding_error + byte list" where
  "hexPairs [] = Inr []"
| "hexPairs [c] = Inl InvalidEncoding"
| "hexPairs (hi # lo # rest) =
     (case (hexValue hi, hexValue lo) of
        (Some h, Some l) \<Rightarrow>
          (case hexPairs rest of
             Inl e \<Rightarrow> Inl e
           | Inr bs \<Rightarrow> Inr (of_nat (16 * h + l) # bs))
      | _ \<Rightarrow> Inl InvalidEncoding)"

text \<open>
  Modelled from the spec: \<open>hexToBytes\<close> of the stealth library, which is not among the
  sources. It accepts an optional \<open>0x\<close> prefix (stripped
  before decoding), is case-insensitive, and fails with \<open>InvalidEncoding\<close> on odd-length
  or non-hex-digit input. \<open>hexPairs\<close> decodes the digits two by two.
\<close>

definition hexToBytes :: "string \<Rightarrow> encoding_error + byte list" where
  "hexToBytes hex = hexPairs (if startsWith hex ''0x'' then drop 2 hex else hex)"

section \<open>Stealth meta-addresses\<close>

text \<open>
  \<open>String.prototype.split\<close> on a one-character separator: the segments between the
  separators, the empty string giving one empty segment.
\<close>

fun split_on :: "char \<Rightarrow> string \<Rightarrow> string list" where
  "split_on sep [] = [[]]"
| "split_on sep (c # cs) =
     (if c = sep then [] # split_on sep cs
      else (case split_on sep cs of
              [] \<Rightarrow> [[c]]
            | p # ps \<Rightarrow> (c # p) # ps))"

definition isHexChar :: "char \<Rightarrow> bool" where
  "isHexChar c = (c \<in> set ''0123456789abcdefABCDEF'')"

definition hexDigits1 :: "string \<Rightarrow> bool" where
  "hexDigits1 s = (s \<noteq> [] \<and> list_all isHexChar s)"

text \<open>
  \<open>/^(0x)?[0-9a-fA-F]+$/.test(s)\<close>: the whole string is one or more hex digits, after
  an optional \<open>0x\<close>.
\<close>

definition hexRegex_test :: "string \<Rightarrow> bool" where
  "hexRegex_test s = ((startsWith s ''0x'' \<and> hexDigits1 (drop 2 s)) \<or> hexDigits1 s)"

definition STEALTH_PREFIX :: string where
  "STEALTH_PREFIX = ''sip:''"

definition supportedChains :: "string list" where
  "supportedChains = [''solana'', ''ethereum'', ''near'']"

datatype addressType = stealth | regular | invalid

record AddressValidation = Validation +
  type :: addressType
  chain :: "string option"

text \<open>\<open>validateStealthAddress\<close> of the send hook (\<open>src/hooks/useSend.ts\<close>).\<close>

definition validateStealthAddress :: "string \<Rightarrow> AddressValidation" where
  "validateStealthAddress address =
     (if \<not> startsWith address STEALTH_PREFIX then
        \<lparr> isValid = False, error = Some ''Not a stealth address'',
                 type = invalid, chain = None \<rparr>
      else
        (case split_on CHR '':'' (drop (length STEALTH_PREFIX) address) of
           [c, sk, vk] \<Rightarrow>
             if c \<notin> set supportedChains then
               \<lparr> isValid = False, error = Some (''Unsupported chain: '' @ c),
                 type = invalid, chain = None \<rparr>
             else if \<not> hexRegex_test sk \<or> \<not> hexRegex_test vk then
               \<lparr> isValid = False, error = Some ''Invalid key format'',
                 type = invalid, chain = None \<rparr>
             else \<lparr> isValid = True, error = None,
                 type = stealth, chain = Some c \<rparr>
         | _ \<Rightarrow>
             \<lparr> isValid = False, error = Some ''Invalid stealth address format'',
                 type = invalid, chain = None \<rparr>))"

text \<open>
  The meta-address as the library's tests build it: \<open>chain\<close>, \<open>spendingKey\<close>,
  \<open>viewingKey\<close> and an optional \<open>label\<close>.
\<close>

record StealthMetaAddress =
  meta_chain :: string
  spendingKey :: string
  viewingKey :: string
  label :: "string option"

text \<open>
  Modelled from the spec: \<open>formatStealthMetaAddress\<close> is defined in the stealth
  library, which is not among the sources. The exact format is
  \<open>sip:<chain>:<spendingKeyHex>:<viewingKeyHex>\<close>; the label is never included.
\<close>

definition formatStealthMetaAddress :: "StealthMetaAddress \<Rightarrow> string" where
  "formatStealthMetaAddress meta =
     ''sip:'' @ meta_chain meta @ '':'' @ spendingKey meta @ '':'' @ viewingKey meta"

text \<open>
  Modelled from the spec: \<open>parseStealthMetaAddress\<close> is defined in the stealth library,
  which is not among the sources. It returns null unless the string starts with \<open>sip:\<close>
  and splits into exactly 4 colon-delimited segments, the chain segment is one of
  \<open>solana\<close>, \<open>ethereum\<close>, \<open>near\<close>, and both key segments match the hex pattern
  (optionally \<open>0x\<close>-prefixed).
\<close>

definition parseStealthMetaAddress :: "string \<Rightarrow> StealthMetaAddress option" where
  "parseStealthMetaAddress s =
     (if \<not> startsWith s ''sip:'' then None
      else
        (case split_on CHR '':'' s of
           [scheme, c, sk, vk] \<Rightarrow>
             if c \<in> set supportedChains \<and> hexRegex_test sk \<and> hexRegex_test vk
             then Some \<lparr> meta_chain = c, spendingKey = sk, viewingKey = vk, label = None \<rparr>
             else None
         | _ \<Rightarrow> None))"

text \<open>
  A valid meta-address, as far as the string format can tell: a supported chain and two
  keys in the hex pattern.
\<close>

definition validMetaAddress :: "StealthMetaAddress \<Rightarrow> bool" where
  "validMetaAddress m =
     (meta_chain m \<in> set supportedChains \<and> hexRegex_test (spendingKey m)
      \<and> hexRegex_test (viewingKey m))"

section \<open>The send hook: address and amount validation\<close>

text \<open>
  A JavaScript number: a double is a rational, an infinity or NaN. Comparisons of doubles
  are exact on the values they denote; only the conversion from text (\<open>parseFloat\<close>)
  rounds, and that function of the runtime is a parameter below.
\<close>

datatype number = NaN | NegInfinity | Finite rat | PosInfinity

fun js_lt :: "number \<Rightarrow> number \<Rightarrow> bool" where
  "js_lt NaN y = False"
| "js_lt x NaN = False"
| "js_lt NegInfinity NegInfinity = False"
| "js_lt NegInfinity y = True"
| "js_lt PosInfinity y = False"
| "js_lt (Finite a) NegInfinity = False"
| "js_lt (Finite a) (Finite b) = (a < b)"
| "js_lt (Finite a) PosInfinity = True"

definition js_gt :: "number \<Rightarrow> number \<Rightarrow> bool" where
  "js_gt x y = js_lt y x"

definition js_le :: "number \<Rightarrow> number \<Rightarrow> bool" where
  "js_le x y = (x \<noteq> NaN \<and> y \<noteq> NaN \<and> \<not> js_lt y x)"

definition isNaN :: "number \<Rightarrow> bool" where
  "isNaN x = (x = NaN)"

text \<open>The double that the literal \<open>0.001\<close> denotes: 1152921504606847 / 2^60.\<close>

definition double_0_001 :: number where
  "double_0_001 = Finite (1152921504606847 / 2 ^ 60)"

definition validateAmount :: "(string \<Rightarrow> number) \<Rightarrow> string \<Rightarrow> number \<Rightarrow> Validation" where
  "validateAmount parseFloat amount balance =
     (if amount = [] \<or> trim amount = [] then
        \<lparr> isValid = False, error = Some ''Amount is required'' \<rparr>
      else
        (let numAmount = parseFloat amount in
         if isNaN numAmount then
           \<lparr> isValid = False, error = Some ''Invalid amount'' \<rparr>
         else if js_le numAmount (Finite 0) then
           \<lparr> isValid = False, error = Some ''Amount must be greater than 0'' \<rparr>
         else if js_gt numAmount balance then
           \<lparr> isValid = False, error = Some ''Insufficient balance'' \<rparr>
         else if js_lt numAmount double_0_001 then
           \<lparr> isValid = False, error = Some ''Minimum amount is 0.001 SOL'' \<rparr>
         else \<lparr> isValid = True, error = None \<rparr>))"

text \<open>\<open>SOLANA_ADDRESS_REGEX = /^[1-9A-HJ-NP-Za-km-z]{32,44}$/\<close>.\<close>

definition isBase58Char :: "char \<Rightarrow> bool" where
  "isBase58Char c = (c \<in> set ''123456789ABCDEFGHJKLMNPQRSTUVWXYZabcdefghijkmnopqrstuvwxyz'')"

definition SOLANA_ADDRESS_REGEX_test :: "string \<Rightarrow> bool" where
  "SOLANA_ADDRESS_REGEX_test s = (32 \<le> length s \<and> length s \<le> 44 \<and> list_all isBase58Char s)"

definition validateSolanaAddress :: "string \<Rightarrow> AddressValidation" where
  "validateSolanaAddress address =
     (if \<not> SOLANA_ADDRESS_REGEX_test address then
        \<lparr> isValid = False, error = Some ''Invalid Solana address'',
          type = invalid, chain = None \<rparr>
      else \<lparr> isValid = True, error = None, type = regular, chain = Some ''solana'' \<rparr>)"

definition validateAddress :: "string \<Rightarrow> AddressValidation" where
  "validateAddress address =
     (if address = [] \<or> trim address = [] then
        \<lparr> isValid = False, error = Some ''Address is required'',
          type = invalid, chain = None \<rparr>
      else
        (let trimmed = trim address in
         if startsWith trimmed STEALTH_PREFIX then validateStealthAddress trimmed
         else validateSolanaAddress trimmed))"

subsection \<open>\<open>send\<close>\<close>

datatype SendStatus =
  st_idle | st_validating | st_preparing | st_signing | st_submitting | st_confirmed | st_error

record 'lvl SendParams =
  amount :: string
  recipient :: string
  privacyLevel :: 'lvl
  memo :: "string option"

record SendResult =
  success :: bool
  res_txHash :: "string option"
  res_error :: "string option"

text \<open>What \<open>send\<close> hands to the privacy store's \<open>addPayment\<close>.\<close>

record 'lvl SentPayment =
  sp_id :: string
  sp_type :: string
  sp_amount :: string
  sp_token :: string
  sp_status :: string
  sp_stealthAddress :: "string option"
  sp_txHash :: string
  sp_timestamp :: nat
  sp_privacyLevel :: 'lvl

text \<open>
  The hook's state (\<open>status\<close>, \<open>error\<close>, \<open>txHash\<close>), the payments the store has
  received, and every status the hook has been set to, in order.
\<close>

record 'lvl SendState =
  status :: SendStatus
  send_error :: "string option"
  txHash :: "string option"
  payments :: "'lvl SentPayment list"
  statusLog :: "SendStatus list"

definition setStatus :: "SendStatus \<Rightarrow> 'lvl SendState \<Rightarrow> 'lvl SendState" where
  "setStatus s st = st\<lparr>status := s, statusLog := statusLog st @ [s]\<rparr>"

text \<open>The \<open>catch\<close> block of \<open>send\<close>, for a thrown \<open>Error\<close> with the given message.\<close>

definition send_failed :: "string \<Rightarrow> 'lvl SendState \<Rightarrow> 'lvl SendState \<times> SendResult" where
  "send_failed errorMessage st =
     (setStatus st_error (st\<lparr>send_error := Some errorMessage\<rparr>),
      \<lparr> success = False, res_txHash = None, res_error = Some errorMessage \<rparr>)"

text \<open>\<open>validation.error || fallback\<close>: the fallback for a missing or empty message.\<close>

definition error_or :: "string option \<Rightarrow> string \<Rightarrow> string" where
  "error_or e fallback = (case e of None \<Rightarrow> fallback | Some m \<Rightarrow> if m = [] then fallback else m)"

text \<open>
  \<open>send\<close>. The wallet store (\<open>isConnected\<close>, \<open>walletAddress\<close>), the runtime's
  \<open>parseFloat\<close>, the random mock transaction hash and the two readings of
  \<open>Date.now()\<close> are parameters. The three simulated delays do nothing but wait.
\<close>

definition send ::
  "bool \<Rightarrow> string option \<Rightarrow> (string \<Rightarrow> number) \<Rightarrow> string \<Rightarrow> nat \<Rightarrow> nat
     \<Rightarrow> 'lvl SendParams \<Rightarrow> 'lvl SendState \<Rightarrow> 'lvl SendState \<times> SendResult" where
  "send isConnected walletAddress parseFloat mockTxHash now1 now2 params st =
     (if \<not> isConnected \<or> walletAddress = None \<or> walletAddress = Some [] then
        (st, \<lparr> success = False, res_txHash = None, res_error = Some ''Wallet not connected'' \<rparr>)
      else
        (let st1 = (setStatus st_validating st)\<lparr>send_error := None, txHash := None\<rparr>;
             addressValidation = validateAddress (recipient params)
         in if \<not> isValid addressValidation then
              send_failed (error_or (error addressValidation) ''Invalid address'') st1
            else
              (let amountValidation = validateAmount parseFloat (amount params) (Finite 100)
               in if \<not> isValid amountValidation then
                    send_failed (error_or (error amountValidation) ''Invalid amount'') st1
                  else
                    (let st2 = setStatus st_preparing st1;
                         st3 = setStatus st_signing st2;
                         st4 = setStatus st_submitting st3;
                         st5 = setStatus st_confirmed (st4\<lparr>txHash := Some mockTxHash\<rparr>);
                         payment =
                           \<lparr> sp_id = ''payment_'' @ showNat now1,
                             sp_type = ''send'',
                             sp_amount = amount params,
                             sp_token = ''SOL'',
                             sp_status = ''completed'',
                             sp_stealthAddress =
                               (if type addressValidation = stealth
                                then Some (recipient params) else None),
                             sp_txHash = mockTxHash,
                             sp_timestamp = now2,
                             sp_privacyLevel = privacyLevel params \<rparr>
                     in (st5\<lparr>payments := payments st5 @ [payment]\<rparr>,
                         \<lparr> success = True, res_txHash = Some mockTxHash,
                           res_error = None \<rparr>)))))"

section \<open>The scan flow\<close>

text \<open>\<open>executeScanFlow\<close> and its types, from \<open>tests/e2e/flows/scan.test.ts\<close>.\<close>

datatype ScanStage =
  scan_idle | scan_fetching | scan_scanning | scan_processing | scan_complete | scan_error

record ScanProgress =
  stage :: ScanStage
  current :: nat
  total :: nat
  message :: string

datatype PaymentType = send_payment | receive_payment

datatype PaymentStatus = pending | completed | claimed | failed

record PaymentRecord =
  pay_id :: string
  pay_type :: PaymentType
  pay_amount :: string
  pay_token :: string
  pay_status :: PaymentStatus
  pay_stealthAddress :: "string option"
  pay_txHash :: string
  pay_timestamp :: int
  pay_claimed :: bool

record ScanResult =
  found :: nat
  scanned :: nat
  newPayments :: "PaymentRecord list"
  errors :: "string list"

record StealthKeys =
  spendingPrivateKey :: string
  viewingPrivateKey :: string

record Announcement =
  ann_id :: string
  ann_ephemeralPubKey :: string
  ann_stealthAddress :: string
  ann_amount :: string
  ann_token :: string
  ann_timestamp :: int
  ann_txHash :: string
  isOurs :: bool

record ScanOptions =
  limit :: "nat option"
  fromTimestamp :: "int option"
  mockAnnouncements :: "Announcement list option"

definition BATCH_SIZE :: nat where
  "BATCH_SIZE = 50"

text \<open>
  The inner loop, over one batch. \<open>dateNow\<close> gives the reading of \<open>Date.now()\<close> taken
  while the announcement with the given running number is processed.
\<close>

fun scanBatch ::
  "string set \<Rightarrow> (nat \<Rightarrow> nat) \<Rightarrow> Announcement list \<Rightarrow> ScanResult \<Rightarrow> ScanResult" where
  "scanBatch existingTxHashes dateNow [] result = result"
| "scanBatch existingTxHashes dateNow (announcement # batch) result =
     (let result1 = result\<lparr>scanned := scanned result + 1\<rparr> in
      if ann_txHash announcement \<in> existingTxHashes then
        scanBatch existingTxHashes dateNow batch result1
      else if isOurs announcement then
        (let result2 = result1\<lparr>found := found result1 + 1\<rparr>;
             payment =
               \<lparr> pay_id = ''payment_'' @ showNat (dateNow (scanned result2)) @ ''_''
                          @ showNat (found result2),
                 pay_type = receive_payment,
                 pay_amount = ann_amount announcement,
                 pay_token = ann_token announcement,
                 pay_status = completed,
                 pay_stealthAddress =
                   Some (''sip:solana:'' @ ann_ephemeralPubKey announcement @ '':derived''),
                 pay_txHash = ann_txHash announcement,
                 pay_timestamp = ann_timestamp announcement,
                 pay_claimed = False \<rparr>
         in scanBatch existingTxHashes dateNow batch
              (result2\<lparr>newPayments := newPayments result2 @ [payment]\<rparr>))
      else scanBatch existingTxHashes dateNow batch result1)"

text \<open>The outer loop: \<open>for (let i = 0; i < total; i += BATCH_SIZE)\<close>.\<close>

function scanLoop ::
  "string set \<Rightarrow> (nat \<Rightarrow> nat) \<Rightarrow> Announcement list \<Rightarrow> nat \<Rightarrow> ScanResult \<Rightarrow> ScanResult" where
  "scanLoop existingTxHashes dateNow filteredAnnouncements i result =
     (if i < length filteredAnnouncements then
        scanLoop existingTxHashes dateNow filteredAnnouncements (i + BATCH_SIZE)
          (scanBatch existingTxHashes dateNow
             (take BATCH_SIZE (drop i filteredAnnouncements)) result)
      else result)"
  by pat_completeness auto
termination
  by (relation "measure (\<lambda>(e, d, anns, i, r). length anns - i)")
     (auto simp: BATCH_SIZE_def)

declare scanLoop.simps [simp del]

text \<open>
  \<open>generateMockAnnouncements\<close> draws on the clock and on \<open>Math.random\<close>; it is a
  parameter, called only when the options carry no announcements.
\<close>

definition executeScanFlow ::
  "(nat \<Rightarrow> nat list \<Rightarrow> Announcement list) \<Rightarrow> (nat \<Rightarrow> nat) \<Rightarrow> StealthKeys option
     \<Rightarrow> string set \<Rightarrow> ScanOptions \<Rightarrow> ScanProgress \<times> ScanResult" where
  "executeScanFlow generateMockAnnouncements dateNow keys existingTxHashes options =
     (let result = \<lparr> found = 0, scanned = 0, newPayments = [], errors = [] \<rparr> in
      case keys of
        None \<Rightarrow>
          (\<lparr> stage = scan_error, current = 0, total = 0,
             message = ''No stealth keys found'' \<rparr>,
           result\<lparr>errors := [''No stealth keys found'']\<rparr>)
      | Some k \<Rightarrow>
          (let announcements =
                 (case mockAnnouncements options of
                    Some anns \<Rightarrow> anns
                  | None \<Rightarrow>
                      generateMockAnnouncements
                        (case limit options of
                           None \<Rightarrow> 100
                         | Some l \<Rightarrow> if l = 0 then 100 else l)
                        [2, 7, 15, 42]);
               filteredAnnouncements =
                 (case fromTimestamp options of
                    None \<Rightarrow> announcements
                  | Some t \<Rightarrow>
                      if t = 0 then announcements
                      else filter (\<lambda>a. ann_timestamp a > t) announcements);
               total = length filteredAnnouncements
           in if total = 0 then
                (\<lparr> stage = scan_complete, current = 0, total = 0,
                   message = ''No announcements to scan'' \<rparr>, result)
              else
                (let result' = scanLoop existingTxHashes dateNow filteredAnnouncements 0 result
                 in (\<lparr> stage = scan_complete, current = total, total = total,
                       message = ''Found '' @ showNat (found result') @ '' payment''
                         @ (if found result' \<noteq> 1 then ''s'' else '''') @ '' in ''
                         @ showNat total @ '' announcements'' \<rparr>,
                     result'))))"

section \<open>The client factory (module-level singleton)\<close>

record 'conn SipPrivacyClient =
  connection :: 'conn
  programId :: PublicKey

text \<open>
  The constructor: \<open>programId\<close> defaults to \<open>SIP_PRIVACY_PROGRAM_ID\<close> when the
  argument is left out. The constant lives in the types module; it is the first parameter.
\<close>

definition new_SipPrivacyClient ::
  "PublicKey \<Rightarrow> 'conn \<Rightarrow> PublicKey option \<Rightarrow> 'conn SipPrivacyClient" where
  "new_SipPrivacyClient SIP_PRIVACY_PROGRAM_ID conn pid =
     \<lparr> connection = conn,
       programId = (case pid of None \<Rightarrow> SIP_PRIVACY_PROGRAM_ID | Some p \<Rightarrow> p) \<rparr>"

text \<open>
  \<open>let clientInstance: SipPrivacyClient | null = null\<close> is the module state; each
  function takes it and returns it updated.
\<close>

type_synonym 'conn clientInstance = "'conn SipPrivacyClient option"

definition getSipPrivacyClient ::
  "PublicKey \<Rightarrow> 'conn \<Rightarrow> PublicKey option \<Rightarrow> 'conn clientInstance
     \<Rightarrow> 'conn SipPrivacyClient \<times> 'conn clientInstance" where
  "getSipPrivacyClient SIP_PRIVACY_PROGRAM_ID conn pid clientInstance =
     (case clientInstance of
        None \<Rightarrow>
          (let c = new_SipPrivacyClient SIP_PRIVACY_PROGRAM_ID conn pid in (c, Some c))
      | Some c \<Rightarrow> (c, Some c))"

definition resetSipPrivacyClient :: "'conn clientInstance \<Rightarrow> 'conn clientInstance" where
  "resetSipPrivacyClient clientInstance = None"

text \<open>A run of calls to \<open>getSipPrivacyClient\<close>, collecting what each one returns.\<close>

fun getSipPrivacyClient_calls ::
  "PublicKey \<Rightarrow> ('conn \<times> PublicKey option) list \<Rightarrow> 'conn clientInstance
     \<Rightarrow> 'conn SipPrivacyClient list \<times> 'conn clientInstance" where
  "getSipPrivacyClient_calls d [] st = ([], st)"
| "getSipPrivacyClient_calls d ((conn, pid) # cs) st =
     (let (c, st') = getSipPrivacyClient d conn pid st;
          (rs, st'') = getSipPrivacyClient_calls d cs st'
      in (c # rs, st''))"

section \<open>Buffers\<close>

text \<open>What the runtime throws: a \<open>RangeError\<close> of a buffer access, or an \<open>Error\<close> with a message.\<close>

datatype js_error = RangeError | Error string

definition Buffer_alloc :: "nat \<Rightarrow> Buffer" where
  "Buffer_alloc n = replicate n 0"

text \<open>\<open>Buffer.from(number[])\<close>: each element modulo 256.\<close>

definition Buffer_from :: "int list \<Rightarrow> Buffer" where
  "Buffer_from xs = map of_int xs"

text \<open>\<open>Array.from(Uint8Array)\<close>.\<close>

definition Array_from :: "Buffer \<Rightarrow> int list" where
  "Array_from bs = map uint bs"

text \<open>
  \<open>source.copy(target, targetStart)\<close>: writes as many bytes of the source as fit between
  \<open>targetStart\<close> and the end of the target; the target keeps its length.
\<close>

definition copy :: "Buffer \<Rightarrow> Buffer \<Rightarrow> nat \<Rightarrow> Buffer" where
  "copy source target targetStart =
     (let n = min (length source) (length target - targetStart)
      in take targetStart target @ take n source @ drop (targetStart + n) target)"

text \<open>\<open>buf.slice(start, end)\<close> and \<open>buf.slice(start)\<close>, clamped to the buffer.\<close>

definition slice :: "Buffer \<Rightarrow> nat \<Rightarrow> nat \<Rightarrow> Buffer" where
  "slice buf start stop = take (stop - start) (drop start buf)"

definition slice_from :: "Buffer \<Rightarrow> nat \<Rightarrow> Buffer" where
  "slice_from buf start = drop start buf"

text \<open>\<open>buf[i]\<close>: \<open>undefined\<close> past the end.\<close>

definition at_index :: "Buffer \<Rightarrow> nat \<Rightarrow> byte option" where
  "at_index buf i = (if i < length buf then Some (buf ! i) else None)"

text \<open>Little-endian bytes of a number, and back.\<close>

fun le_bytes :: "nat \<Rightarrow> nat \<Rightarrow> byte list" where
  "le_bytes 0 n = []"
| "le_bytes (Suc k) n = of_nat (n mod 256) # le_bytes k (n div 256)"

fun le_nat :: "byte list \<Rightarrow> nat" where
  "le_nat [] = 0"
| "le_nat (b # bs) = unat b + 256 * le_nat bs"

definition writeUInt32LE :: "int \<Rightarrow> nat \<Rightarrow> Buffer \<Rightarrow> js_error + Buffer" where
  "writeUInt32LE v offset buf =
     (if v < 0 \<or> v > 4294967295 \<or> offset + 4 > length buf then Inl RangeError
      else Inr (take offset buf @ le_bytes 4 (nat v) @ drop (offset + 4) buf))"

definition writeBigUInt64LE :: "int \<Rightarrow> nat \<Rightarrow> Buffer \<Rightarrow> js_error + Buffer" where
  "writeBigUInt64LE v offset buf =
     (if v < 0 \<or> v \<ge> 2 ^ 64 \<or> offset + 8 > length buf then Inl RangeError
      else Inr (take offset buf @ le_bytes 8 (nat v) @ drop (offset + 8) buf))"

definition readUInt16LE :: "Buffer \<Rightarrow> nat \<Rightarrow> js_error + nat" where
  "readUInt16LE buf offset =
     (if offset + 2 > length buf then Inl RangeError
      else Inr (le_nat (take 2 (drop offset buf))))"

definition readBigUInt64LE :: "Buffer \<Rightarrow> nat \<Rightarrow> js_error + nat" where
  "readBigUInt64LE buf offset =
     (if offset + 8 > length buf then Inl RangeError
      else Inr (le_nat (take 8 (drop offset buf))))"

text \<open>
  \<open>new PublicKey(bytes)\<close> of web3.js reads the bytes as a big-endian number and refuses
  one of more than 32 significant bytes; the key is kept here in the 32-byte form that
  \<open>toBuffer()\<close> returns.
\<close>

definition new_PublicKey :: "Buffer \<Rightarrow> js_error + PublicKey" where
  "new_PublicKey bytes =
     (let significant = dropWhile (\<lambda>b. b = 0) bytes
      in if length significant > 32 then Inl (Error ''Invalid public key input'')
         else Inr (replicate (32 - length significant) 0 @ significant))"

definition toBuffer :: "PublicKey \<Rightarrow> Buffer" where
  "toBuffer pk = pk"

section \<open>The config account\<close>

text \<open>
  \<open>bump\<close> is read as \<open>data[75]\<close>, which is \<open>undefined\<close> when the data ends before
  it.
\<close>

record Config =
  authority :: PublicKey
  feeCollector :: PublicKey
  feeBps :: nat
  paused :: bool
  totalTransfers :: nat
  bump :: "byte option"

text \<open>
  The \<open>try\<close> block of \<open>fetchConfig\<close>. Its argument is what
  \<open>connection.getAccountInfo(configPda)\<close> gave: an error, no account, or the account's
  data.
\<close>

definition fetchConfig_try :: "js_error + Buffer option \<Rightarrow> js_error + Config option" where
  "fetchConfig_try accountInfo =
     (case accountInfo of
        Inl e \<Rightarrow> Inl e
      | Inr None \<Rightarrow> Inr None
      | Inr (Some raw) \<Rightarrow>
          (let data = slice_from raw 8 in
           case new_PublicKey (slice data 0 32) of
             Inl e \<Rightarrow> Inl e
           | Inr authority' \<Rightarrow>
           case new_PublicKey (slice data 32 64) of
             Inl e \<Rightarrow> Inl e
           | Inr feeCollector' \<Rightarrow>
           case readUInt16LE data 64 of
             Inl e \<Rightarrow> Inl e
           | Inr feeBps' \<Rightarrow>
           let paused' = (at_index data 66 = Some 1) in
           case readBigUInt64LE data 67 of
             Inl e \<Rightarrow> Inl e
           | Inr totalTransfers' \<Rightarrow>
           let bump' = at_index data 75 in
           Inr (Some \<lparr> authority = authority', feeCollector = feeCollector',
                       feeBps = feeBps', paused = paused',
                       totalTransfers = totalTransfers', bump = bump' \<rparr>)))"

text \<open>\<open>fetchConfig\<close>: the \<open>catch\<close> turns every error into \<open>null\<close>.\<close>

definition fetchConfig :: "js_error + Buffer option \<Rightarrow> Config option" where
  "fetchConfig accountInfo =
     (case fetchConfig_try accountInfo of Inl e \<Rightarrow> None | Inr config \<Rightarrow> config)"

section \<open>The shielded-transfer instruction\<close>

text \<open>
  \<open>ShieldedTransferArgs\<close>, as \<open>buildShieldedTransfer\<close> fills it: three number arrays, a
  public key, two buffers and a bigint.
\<close>

record ShieldedTransferArgs =
  amountCommitment :: "int list"
  stealthPubkey :: PublicKey
  ephemeralPubkey :: "int list"
  viewingKeyHash :: "int list"
  encryptedAmount :: Buffer
  proof' :: Buffer
  actualAmount :: int

definition discriminator :: Buffer where
  "discriminator = [0x5f, 0x80, 0xa9, 0x2e, 0x4b, 0x5d, 0x76, 0x98]"

definition encodeShieldedTransferData :: "ShieldedTransferArgs \<Rightarrow> js_error + Buffer" where
  "encodeShieldedTransferData args =
     (let encryptedAmountLen = length (encryptedAmount args);
          proofLen = length (proof' args);
          totalSize = 8 + 33 + 32 + 33 + 32 + 4 + encryptedAmountLen + 4 + proofLen + 8;
          buffer0 = Buffer_alloc totalSize;
          offset0 = 0;
          buffer1 = copy discriminator buffer0 offset0;
          offset1 = offset0 + 8;
          buffer2 = copy (Buffer_from (amountCommitment args)) buffer1 offset1;
          offset2 = offset1 + 33;
          buffer3 = copy (toBuffer (stealthPubkey args)) buffer2 offset2;
          offset3 = offset2 + 32;
          buffer4 = copy (Buffer_from (ephemeralPubkey args)) buffer3 offset3;
          offset4 = offset3 + 33;
          buffer5 = copy (Buffer_from (viewingKeyHash args)) buffer4 offset4;
          offset5 = offset4 + 32
      in case writeUInt32LE (int encryptedAmountLen) offset5 buffer5 of
           Inl e \<Rightarrow> Inl e
         | Inr buffer6 \<Rightarrow>
           (let offset6 = offset5 + 4;
                buffer7 = copy (encryptedAmount args) buffer6 offset6;
                offset7 = offset6 + encryptedAmountLen
            in case writeUInt32LE (int proofLen) offset7 buffer7 of
                 Inl e \<Rightarrow> Inl e
               | Inr buffer8 \<Rightarrow>
                 (let offset8 = offset7 + 4;
                      buffer9 = copy (proof' args) buffer8 offset8;
                      offset9 = offset8 + proofLen
                  in writeBigUInt64LE (actualAmount args) offset9 buffer9)))"

section \<open>Building a shielded transfer\<close>

record ShieldedTransferParams =
  param_amount :: number
  param_stealthPubkey :: PublicKey
  recipientSpendingKey :: Buffer
  recipientViewingKey :: Buffer
  param_memo :: "string option"

record KeyPair =
  privateKey :: Buffer
  publicKey :: Buffer

record Commitment =
  commitment :: Buffer
  blindingFactor :: Buffer

record EncryptedAmount =
  nonce :: Buffer
  ciphertext :: Buffer

record AccountMeta =
  pubkey :: PublicKey
  isSigner :: bool
  isWritable :: bool

record TransactionInstruction =
  ix_keys :: "AccountMeta list"
  ix_programId :: PublicKey
  ix_data :: Buffer

record Transaction =
  instructions :: "TransactionInstruction list"
  recentBlockhash :: "string option"
  feePayer :: "PublicKey option"

record BuiltTransfer =
  transaction :: Transaction
  transferRecord :: PublicKey
  built_ephemeralPubkey :: Buffer

text \<open>
  What \<open>buildShieldedTransfer\<close> takes from outside the client: the crypto module and the
  PDA helpers of the types module (neither is among the sources) and the
  runtime's \<open>BigInt(Math.floor(amount * LAMPORTS_PER_SOL))\<close>. A function that can reject
  or throw gives an error or a value; the random ones are given by their outcome.
\<close>

record Collaborators =
  lamportsOf :: "number \<Rightarrow> js_error + int"
  generateEphemeralKeyPair :: "js_error + KeyPair"
  deriveSharedSecret :: "Buffer \<Rightarrow> Buffer \<Rightarrow> js_error + Buffer"
  createCommitment :: "int \<Rightarrow> js_error + Commitment"
  encryptAmount :: "int \<Rightarrow> Buffer \<Rightarrow> js_error + EncryptedAmount"
  computeViewingKeyHash :: "Buffer \<Rightarrow> js_error + Buffer"
  generateMockProof :: "Buffer \<Rightarrow> Buffer \<Rightarrow> int \<Rightarrow> js_error + Buffer"
  getConfigPda :: "PublicKey \<Rightarrow> PublicKey"
  getTransferRecordPda :: "PublicKey \<Rightarrow> nat \<Rightarrow> PublicKey \<Rightarrow> PublicKey"
  systemProgramId :: PublicKey

text \<open>The two methods of the web3.js \<open>Connection\<close> that the client calls here.\<close>

record Connection =
  getAccountInfo :: "PublicKey \<Rightarrow> js_error + Buffer option"
  getLatestBlockhash :: "js_error + string"

text \<open>The calls one invocation makes, as call-count instrumentation would record them.\<close>

datatype call =
  FetchConfig | GenerateEphemeralKeyPair | DeriveSharedSecret | CreateCommitment
  | EncryptAmount | ComputeViewingKeyHash | GenerateMockProof | EncodeShieldedTransferData
  | GetLatestBlockhash

text \<open>
  A step takes the log of calls made so far and gives its outcome and the log after it; an
  error ends the invocation, as the thrown exception does.
\<close>

type_synonym 'a step = "call list \<Rightarrow> (js_error + 'a) \<times> call list"

definition returnS :: "'a \<Rightarrow> 'a step" where
  "returnS x = (\<lambda>calls. (Inr x, calls))"

definition throwS :: "js_error \<Rightarrow> 'a step" where
  "throwS e = (\<lambda>calls. (Inl e, calls))"

definition liftS :: "js_error + 'a \<Rightarrow> 'a step" where
  "liftS r = (\<lambda>calls. (r, calls))"

definition callS :: "call \<Rightarrow> js_error + 'a \<Rightarrow> 'a step" where
  "callS c r = (\<lambda>calls. (r, calls @ [c]))"

definition bindS :: "'a step \<Rightarrow> ('a \<Rightarrow> 'b step) \<Rightarrow> 'b step" where
  "bindS m f =
     (\<lambda>calls. case m calls of
              (Inl e, calls') \<Rightarrow> (Inl e, calls')
            | (Inr x, calls') \<Rightarrow> f x calls')"

definition buildShieldedTransfer ::
  "Collaborators \<Rightarrow> Connection SipPrivacyClient \<Rightarrow> PublicKey \<Rightarrow> ShieldedTransferParams
     \<Rightarrow> BuiltTransfer step" where
  "buildShieldedTransfer deps this sender params =
     bindS (callS FetchConfig
              (Inr (fetchConfig
                      (getAccountInfo (connection this) (getConfigPda deps (programId this))))))
       (\<lambda>config'.
     case config' of
       None \<Rightarrow> throwS (Error ''Program not initialized - config account not found'')
     | Some config \<Rightarrow>
     if paused config then throwS (Error ''Program is paused'')
     else
     bindS (liftS (lamportsOf deps (param_amount params))) (\<lambda>lamports.
     bindS (callS GenerateEphemeralKeyPair (generateEphemeralKeyPair deps))
       (\<lambda>ephemeralKeyPair.
     bindS (callS DeriveSharedSecret
              (deriveSharedSecret deps (privateKey ephemeralKeyPair)
                 (recipientSpendingKey params)))
       (\<lambda>sharedSecret.
     bindS (callS CreateCommitment (createCommitment deps lamports)) (\<lambda>created.
     bindS (callS EncryptAmount (encryptAmount deps lamports sharedSecret))
       (\<lambda>encrypted.
     bindS (callS ComputeViewingKeyHash
              (computeViewingKeyHash deps (recipientViewingKey params)))
       (\<lambda>viewingKeyHash'.
     bindS (callS GenerateMockProof
              (generateMockProof deps (commitment created) (blindingFactor created) lamports))
       (\<lambda>mockProof.
     let configPda = getConfigPda deps (programId this);
         transferRecordPda =
           getTransferRecordPda deps sender (totalTransfers config) (programId this)
     in
     bindS (callS EncodeShieldedTransferData
              (encodeShieldedTransferData
                 \<lparr> amountCommitment = Array_from (commitment created),
                   stealthPubkey = param_stealthPubkey params,
                   ephemeralPubkey = Array_from (publicKey ephemeralKeyPair),
                   viewingKeyHash = Array_from viewingKeyHash',
                   encryptedAmount = nonce encrypted @ ciphertext encrypted,
                   proof' = mockProof,
                   actualAmount = lamports \<rparr>))
       (\<lambda>instructionData.
     let instruction =
           \<lparr> ix_keys =
               [\<lparr> pubkey = configPda, isSigner = False, isWritable = True \<rparr>,
                \<lparr> pubkey = transferRecordPda, isSigner = False, isWritable = True \<rparr>,
                \<lparr> pubkey = sender, isSigner = True, isWritable = True \<rparr>,
                \<lparr> pubkey = param_stealthPubkey params, isSigner = False,
                  isWritable = True \<rparr>,
                \<lparr> pubkey = feeCollector config, isSigner = False, isWritable = True \<rparr>,
                \<lparr> pubkey = systemProgramId deps, isSigner = False, isWritable = False \<rparr>],
             ix_programId = programId this,
             ix_data = instructionData \<rparr>
     in
     bindS (callS GetLatestBlockhash (getLatestBlockhash (connection this))) (\<lambda>blockhash.
     returnS
       \<lparr> transaction =
           \<lparr> instructions = [instruction], recentBlockhash = Some blockhash,
             feePayer = Some sender \<rparr>,
         transferRecord = transferRecordPda,
         built_ephemeralPubkey = publicKey ephemeralKeyPair \<rparr>))))))))))"

section \<open>Properties of the hex conversions\<close>

lemma hexValue_hexDigit: "n < 16 \<Longrightarrow> hexValue (hexDigit n) = Some n"
  by (auto simp: hexValue_def hexDigit_def Let_def)

lemma hexDigit_not_x: "n < 16 \<Longrightarrow> hexDigit n \<noteq> CHR ''x''"
proof
  assume n: "n < 16" and eq: "hexDigit n = CHR ''x''"
  have "(of_char (hexDigit n) :: nat) = of_char (CHR ''x'')"
    using eq by simp
  with n show False
    by (simp add: hexDigit_def split: if_splits)
qed

lemma hexDigit_lowercase:
  assumes "n < 16"
  shows "hexDigit n \<in> set ''0123456789abcdef''"
proof -
  from assms have "n < 10 \<or> n = 15 \<or> n = 14 \<or> n = 13 \<or> n = 12 \<or> n = 11 \<or> n = 10"
    by arith
  moreover have "n < 10 \<Longrightarrow> n = 9 \<or> n = 8 \<or> n = 7 \<or> n = 6 \<or> n = 5 \<or> n < 5"
    by arith
  moreover have "n < 5 \<Longrightarrow> n = 4 \<or> n = 3 \<or> n = 2 \<or> n = 1 \<or> n = 0"
    by arith
  ultimately have "n \<in> set [0, 1, 2, 3, 4, 5, 6, 7, 8, 9, 10, 11, 12, 13, 14, 15]"
    by auto
  then have "(of_char (hexDigit n) :: nat) \<in> of_char ` set ''0123456789abcdef''"
    by (auto simp: hexDigit_def)
  then show ?thesis
    by (simp only: inj_image_mem_iff [OF inj_of_char])
qed

lemma byte_hi_nibble: "unat (b :: byte) div 16 < 16"
proof -
  have "unat b < 2 ^ LENGTH(8)" by (rule unsigned_less)
  then show ?thesis by simp
qed

lemma hexPairs_bytesToHex: "hexPairs (bytesToHex bs) = Inr bs"
  by (induction bs) (simp_all add: bytesToHex_def hexValue_hexDigit byte_hi_nibble)

lemma bytesToHex_no_prefix: "\<not> startsWith (bytesToHex bs) ''0x''"
  by (cases bs) (simp_all add: bytesToHex_def startsWith_def hexDigit_not_x)

lemma bytesToHex_lowercase:
  "list_all (\<lambda>c. c \<in> set ''0123456789abcdef'') (bytesToHex bs)"
  unfolding bytesToHex_def
  by (induction bs) (simp_all add: hexDigit_lowercase byte_hi_nibble del: set_simps)

text \<open>
  C7. For every byte sequence \<open>b\<close>, the empty one included,
  \<open>hexToBytes (bytesToHex b)\<close> succeeds and gives \<open>b\<close> back. \<open>bytesToHex\<close> writes
  each byte as exactly two characters, its high and low nibble, all of them lowercase hex
  digits, with nothing in between (the text of a concatenation is the concatenation of the
  texts), and the empty input gives the empty string.
\<close>

theorem hexToBytes_bytesToHex_roundtrip:
  "hexToBytes (bytesToHex b) = Inr b
   \<and> bytesToHex [] = []
   \<and> bytesToHex [x] = [hexDigit (unat x div 16), hexDigit (unat x mod 16)]
   \<and> bytesToHex (b @ b') = bytesToHex b @ bytesToHex b'
   \<and> length (bytesToHex b) = 2 * length b
   \<and> list_all (\<lambda>c. c \<in> set ''0123456789abcdef'') (bytesToHex b)"
proof -
  have rt: "hexToBytes (bytesToHex b) = Inr b"
    by (simp add: hexToBytes_def bytesToHex_no_prefix hexPairs_bytesToHex)
  have len: "length (bytesToHex b) = 2 * length b"
    by (induction b) (simp_all add: bytesToHex_def)
  have app: "bytesToHex (b @ b') = bytesToHex b @ bytesToHex b'"
    by (simp add: bytesToHex_def)
  show ?thesis
    using rt len app bytesToHex_lowercase [of b] by (simp add: bytesToHex_def)
qed

section \<open>Properties of meta-address parsing and formatting\<close>

lemma split_on_nonempty: "split_on sep s \<noteq> []"
  by (induction s) (auto split: list.splits)

lemma split_on_no_sep: "sep \<notin> set a \<Longrightarrow> split_on sep a = [a]"
  by (induction a) auto

lemma split_on_append:
  "sep \<notin> set a \<Longrightarrow> split_on sep (a @ sep # b) = a # split_on sep b"
  by (induction a) auto

lemma split_on_concat:
  "split_on sep s = ps \<Longrightarrow> s = concat (map (\<lambda>p. p @ [sep]) (butlast ps)) @ last ps"
proof (induction s arbitrary: ps)
  case Nil
  then show ?case by auto
next
  case (Cons c cs)
  show ?case
  proof (cases "c = sep")
    case True
    with Cons show ?thesis by (auto simp: split_on_nonempty)
  next
    case False
    obtain p qs where pq: "split_on sep cs = p # qs"
      using split_on_nonempty [of sep cs] by (cases "split_on sep cs") auto
    with Cons False show ?thesis by (cases qs) auto
  qed
qed

lemma length_sip: "length ''sip:'' = 4"
  by simp

lemma length_0x: "length ''0x'' = 2"
  by simp

lemma startsWith_sip:
  assumes "startsWith s ''sip:''"
  shows "s = ''sip:'' @ drop 4 s"
proof -
  from assms have "take 4 s = ''sip:''" unfolding startsWith_def length_sip .
  then show ?thesis by (metis append_take_drop_id)
qed

lemma split_on_sip:
  assumes "startsWith s ''sip:''"
  shows "split_on CHR '':'' s = ''sip'' # split_on CHR '':'' (drop 4 s)"
proof -
  have "s = ''sip'' @ CHR '':'' # drop 4 s"
    using startsWith_sip [OF assms] by simp
  then have "split_on CHR '':'' s = split_on CHR '':'' (''sip'' @ CHR '':'' # drop 4 s)"
    by simp
  also have "\<dots> = ''sip'' # split_on CHR '':'' (drop 4 s)"
    by (rule split_on_append) simp
  finally show ?thesis .
qed

lemma isHexChar_not_colon: "isHexChar c \<Longrightarrow> c \<noteq> CHR '':''"
  by (auto simp: isHexChar_def)

lemma hexDigits1_no_colon: "hexDigits1 s \<Longrightarrow> CHR '':'' \<notin> set s"
  by (auto simp: hexDigits1_def list_all_iff dest: isHexChar_not_colon)

lemma hexRegex_no_colon:
  assumes "hexRegex_test s"
  shows "CHR '':'' \<notin> set s"
proof -
  from assms consider "startsWith s ''0x''" "hexDigits1 (drop 2 s)" | "hexDigits1 s"
    by (auto simp: hexRegex_test_def)
  then show ?thesis
  proof cases
    case 1
    then have "take 2 s = ''0x''" unfolding startsWith_def length_0x by simp
    then have s: "s = ''0x'' @ drop 2 s" by (metis append_take_drop_id)
    have "set s = set (''0x'' @ drop 2 s)" using s by simp
    also have "\<dots> = {CHR ''0'', CHR ''x''} \<union> set (drop 2 s)" by auto
    finally show ?thesis using hexDigits1_no_colon [OF 1(2)] by auto
  next
    case 2
    then show ?thesis by (rule hexDigits1_no_colon)
  qed
qed

lemma supportedChains_no_colon: "c \<in> set supportedChains \<Longrightarrow> CHR '':'' \<notin> set c"
  by (auto simp: supportedChains_def)

lemma split_on_format:
  assumes "CHR '':'' \<notin> set c" "CHR '':'' \<notin> set sk" "CHR '':'' \<notin> set vk"
  shows "split_on CHR '':'' (''sip:'' @ c @ '':'' @ sk @ '':'' @ vk) = [''sip'', c, sk, vk]"
proof -
  have "split_on CHR '':'' (''sip'' @ CHR '':'' # (c @ CHR '':'' # (sk @ CHR '':'' # vk)))
        = ''sip'' # split_on CHR '':'' (c @ CHR '':'' # (sk @ CHR '':'' # vk))"
    by (rule split_on_append) simp
  also have "split_on CHR '':'' (c @ CHR '':'' # (sk @ CHR '':'' # vk))
        = c # split_on CHR '':'' (sk @ CHR '':'' # vk)"
    by (rule split_on_append) (rule assms)
  also have "split_on CHR '':'' (sk @ CHR '':'' # vk) = sk # split_on CHR '':'' vk"
    by (rule split_on_append) (rule assms)
  also have "split_on CHR '':'' vk = [vk]"
    by (rule split_on_no_sep) (rule assms)
  finally show ?thesis by simp
qed

lemma parse_format:
  assumes "validMetaAddress m"
  shows "parseStealthMetaAddress (formatStealthMetaAddress m) = Some (m\<lparr>label := None\<rparr>)"
proof -
  from assms have c: "meta_chain m \<in> set supportedChains"
    and sk: "hexRegex_test (spendingKey m)" and vk: "hexRegex_test (viewingKey m)"
    by (simp_all add: validMetaAddress_def)
  have sp: "split_on CHR '':'' (formatStealthMetaAddress m)
            = [''sip'', meta_chain m, spendingKey m, viewingKey m]"
    unfolding formatStealthMetaAddress_def
    by (rule split_on_format)
       (simp_all add: supportedChains_no_colon [OF c] hexRegex_no_colon [OF sk]
          hexRegex_no_colon [OF vk])
  have st: "startsWith (formatStealthMetaAddress m) ''sip:''"
    by (simp add: startsWith_def formatStealthMetaAddress_def)
  show ?thesis
    by (simp add: parseStealthMetaAddress_def st sp c sk vk)
qed

lemma parse_Some_format:
  assumes "parseStealthMetaAddress s = Some m"
  shows "s = formatStealthMetaAddress m \<and> validMetaAddress m \<and> label m = None"
proof -
  from assms have st: "startsWith s ''sip:''"
    by (auto simp: parseStealthMetaAddress_def split: if_splits)
  from assms obtain scheme c sk vk where sp: "split_on CHR '':'' s = [scheme, c, sk, vk]"
    and ok: "c \<in> set supportedChains" "hexRegex_test sk" "hexRegex_test vk"
    and m: "m = \<lparr> meta_chain = c, spendingKey = sk, viewingKey = vk, label = None \<rparr>"
    by (auto simp: parseStealthMetaAddress_def split: if_splits list.splits)
  from split_on_sip [OF st] sp have scheme: "scheme = ''sip''" by simp
  from split_on_concat [OF sp] have "s = scheme @ '':'' @ c @ '':'' @ sk @ '':'' @ vk"
    by simp
  with scheme m ok show ?thesis
    by (simp add: formatStealthMetaAddress_def validMetaAddress_def)
qed

lemma parse_iff_validate:
  "(parseStealthMetaAddress s \<noteq> None) = isValid (validateStealthAddress s)"
proof (cases "startsWith s ''sip:''")
  case False
  then show ?thesis
    by (simp add: parseStealthMetaAddress_def validateStealthAddress_def STEALTH_PREFIX_def)
next
  case True
  note sp = split_on_sip [OF True]
  have a: "startsWith s STEALTH_PREFIX" using True by (simp add: STEALTH_PREFIX_def)
  have b: "drop (length STEALTH_PREFIX) s = drop 4 s"
    unfolding STEALTH_PREFIX_def length_sip ..
  show ?thesis
    by (auto simp add: parseStealthMetaAddress_def validateStealthAddress_def a b True sp
          split: list.splits)
qed

lemma parse_by_segments:
  "parseStealthMetaAddress s =
     (if startsWith s ''sip:'' \<and> length (split_on CHR '':'' s) = 4
         \<and> split_on CHR '':'' s ! 1 \<in> set supportedChains
         \<and> hexRegex_test (split_on CHR '':'' s ! 2)
         \<and> hexRegex_test (split_on CHR '':'' s ! 3)
      then Some \<lparr> meta_chain = split_on CHR '':'' s ! 1,
                  spendingKey = split_on CHR '':'' s ! 2,
                  viewingKey = split_on CHR '':'' s ! 3, label = None \<rparr>
      else None)"
proof -
  obtain ps where ps: "split_on CHR '':'' s = ps" by simp
  have four: "length ps = 4 \<longleftrightarrow> (\<exists>a b c d. ps = [a, b, c, d])"
    by (auto simp: length_Suc_conv eval_nat_numeral)
  show ?thesis
  proof (cases "length ps = 4")
    case True
    then obtain a b c d where "ps = [a, b, c, d]" using four by blast
    then show ?thesis
      by (simp add: parseStealthMetaAddress_def ps)
  next
    case False
    then have "\<And>a b c d. ps \<noteq> [a, b, c, d]" by auto
    then show ?thesis using False
      by (simp add: parseStealthMetaAddress_def ps split: list.splits)
  qed
qed

text \<open>
  C5. \<open>parseStealthMetaAddress\<close> is total: it returns \<open>None\<close> (null) for every string
  that does not start with \<open>sip:\<close>, does not split on colons into exactly 4 segments,
  has a chain segment outside solana, ethereum, near, or has a key segment outside the
  hex pattern; for a string meeting all four conditions it returns the meta-address made of
  the three segments after \<open>sip\<close>, with no label. So it succeeds exactly on the strings
  that are the formatted form of a valid meta-address, and exactly on the strings the send
  hook's \<open>validateStealthAddress\<close> accepts.
\<close>

theorem parseStealthMetaAddress_null_or_parsed:
  "parseStealthMetaAddress s =
     (if startsWith s ''sip:'' \<and> length (split_on CHR '':'' s) = 4
         \<and> split_on CHR '':'' s ! 1 \<in> set supportedChains
         \<and> hexRegex_test (split_on CHR '':'' s ! 2)
         \<and> hexRegex_test (split_on CHR '':'' s ! 3)
      then Some \<lparr> meta_chain = split_on CHR '':'' s ! 1,
                  spendingKey = split_on CHR '':'' s ! 2,
                  viewingKey = split_on CHR '':'' s ! 3, label = None \<rparr>
      else None)
   \<and> (parseStealthMetaAddress s = Some m)
       = (s = formatStealthMetaAddress m \<and> validMetaAddress m \<and> label m = None)
   \<and> (parseStealthMetaAddress s \<noteq> None) = isValid (validateStealthAddress s)"
proof -
  have "(parseStealthMetaAddress s = Some m)
        = (s = formatStealthMetaAddress m \<and> validMetaAddress m \<and> label m = None)"
  proof
    assume "parseStealthMetaAddress s = Some m"
    then show "s = formatStealthMetaAddress m \<and> validMetaAddress m \<and> label m = None"
      by (rule parse_Some_format)
  next
    assume r: "s = formatStealthMetaAddress m \<and> validMetaAddress m \<and> label m = None"
    then have "parseStealthMetaAddress s = Some (m\<lparr>label := None\<rparr>)"
      by (simp add: parse_format)
    with r show "parseStealthMetaAddress s = Some m" by simp
  qed
  then show ?thesis
    using parse_by_segments [of s] parse_iff_validate [of s] by blast
qed

theorem parseStealthMetaAddress_null_or_parsed_witness:
  "parseStealthMetaAddress ''sip:solana:0x1234:0x5678''
     = Some \<lparr> meta_chain = ''solana'', spendingKey = ''0x1234'', viewingKey = ''0x5678'',
              label = None \<rparr>
   \<and> isValid (validateStealthAddress ''sip:solana:0x1234:0x5678'')
   \<and> validMetaAddress \<lparr> meta_chain = ''solana'', spendingKey = ''0x1234'',
                          viewingKey = ''0x5678'', label = None \<rparr>
   \<and> parseStealthMetaAddress ''sip:solana:0x1234:0x5678:extra'' = None
   \<and> \<not> isValid (validateStealthAddress ''sip:solana:0x1234:0x5678:extra'')
   \<and> parseStealthMetaAddress ''invalid:solana:0x1234:0x5678'' = None
   \<and> parseStealthMetaAddress ''sip:bitcoin:0x1234:0x5678'' = None
   \<and> parseStealthMetaAddress ''sip:near:0x12zz:0x5678'' = None"
proof -
  let ?s = "''sip:solana:0x1234:0x5678''"
  let ?m = "\<lparr> meta_chain = ''solana'', spendingKey = ''0x1234'', viewingKey = ''0x5678'',
              label = None \<rparr>"
  have p: "parseStealthMetaAddress ?s = Some ?m"
    by (simp add: parseStealthMetaAddress_def supportedChains_def hexRegex_test_def
        hexDigits1_def isHexChar_def startsWith_def)
  note at_s = parseStealthMetaAddress_null_or_parsed [of ?s ?m]
  have "(parseStealthMetaAddress ?s = Some ?m)
        = (?s = formatStealthMetaAddress ?m \<and> validMetaAddress ?m \<and> label ?m = None)"
    using at_s by (rule conjunct2 [THEN conjunct1])
  with p have valid: "validMetaAddress ?m" by blast
  have "(parseStealthMetaAddress ?s \<noteq> None) = isValid (validateStealthAddress ?s)"
    using at_s by (rule conjunct2 [THEN conjunct2])
  with p have ok: "isValid (validateStealthAddress ?s)" by (metis option.distinct(1))
  let ?t = "''sip:solana:0x1234:0x5678:extra''"
  have q: "parseStealthMetaAddress ?t = None"
    by (simp add: parseStealthMetaAddress_def startsWith_def)
  have "(parseStealthMetaAddress ?t \<noteq> None) = isValid (validateStealthAddress ?t)"
    using parseStealthMetaAddress_null_or_parsed [of ?t ?m]
    by (rule conjunct2 [THEN conjunct2])
  with q have bad: "\<not> isValid (validateStealthAddress ?t)" by metis
  have rest: "parseStealthMetaAddress ''invalid:solana:0x1234:0x5678'' = None
      \<and> parseStealthMetaAddress ''sip:bitcoin:0x1234:0x5678'' = None
      \<and> parseStealthMetaAddress ''sip:near:0x12zz:0x5678'' = None"
    by (simp add: parseStealthMetaAddress_def supportedChains_def hexRegex_test_def
        hexDigits1_def isHexChar_def startsWith_def)
  show ?thesis
    using p ok valid q bad rest by (intro conjI) blast+
qed

text \<open>
  C6 as stated fails when the meta-address carries a label: the formatted string never
  holds the label, so parsing cannot give it back.
\<close>

theorem parse_format_label_counterexample:
  "validMetaAddress
     \<lparr> meta_chain = ''solana'', spendingKey = ''0x1234'', viewingKey = ''0x5678'',
       label = Some ''My Wallet'' \<rparr>
   \<and> formatStealthMetaAddress
       \<lparr> meta_chain = ''solana'', spendingKey = ''0x1234'', viewingKey = ''0x5678'',
         label = Some ''My Wallet'' \<rparr> = ''sip:solana:0x1234:0x5678''
   \<and> parseStealthMetaAddress (formatStealthMetaAddress
       \<lparr> meta_chain = ''solana'', spendingKey = ''0x1234'', viewingKey = ''0x5678'',
         label = Some ''My Wallet'' \<rparr>)
     \<noteq> Some \<lparr> meta_chain = ''solana'', spendingKey = ''0x1234'', viewingKey = ''0x5678'',
              label = Some ''My Wallet'' \<rparr>"
  by (simp add: validMetaAddress_def formatStealthMetaAddress_def parseStealthMetaAddress_def
      supportedChains_def hexRegex_test_def hexDigits1_def isHexChar_def startsWith_def)

text \<open>
  C6, amended. For every valid meta-address \<open>m\<close>, parsing the formatted string gives
  \<open>m\<close> with its label removed (so \<open>m\<close> itself when it has no label); the formatted
  string is exactly \<open>sip:<chain>:<spendingKey>:<viewingKey>\<close> and does not depend on
  the label.
\<close>

theorem parse_format_roundtrip:
  assumes "validMetaAddress m"
  shows "parseStealthMetaAddress (formatStealthMetaAddress m) = Some (m\<lparr>label := None\<rparr>)
   \<and> (label m = None \<longrightarrow> parseStealthMetaAddress (formatStealthMetaAddress m) = Some m)
   \<and> formatStealthMetaAddress m
     = ''sip:'' @ meta_chain m @ '':'' @ spendingKey m @ '':'' @ viewingKey m
   \<and> formatStealthMetaAddress (m\<lparr>label := l\<rparr>) = formatStealthMetaAddress m"
proof -
  have p: "parseStealthMetaAddress (formatStealthMetaAddress m) = Some (m\<lparr>label := None\<rparr>)"
    using assms by (rule parse_format)
  have f: "formatStealthMetaAddress (m\<lparr>label := l\<rparr>) = formatStealthMetaAddress m"
    by (simp add: formatStealthMetaAddress_def)
  show ?thesis
    using p f by (simp add: formatStealthMetaAddress_def)
qed

theorem parse_format_roundtrip_witness:
  "validMetaAddress
     \<lparr> meta_chain = ''solana'', spendingKey = ''0xabcdef123456'',
       viewingKey = ''0x987654fedcba'', label = None \<rparr>
   \<and> parseStealthMetaAddress (formatStealthMetaAddress
       \<lparr> meta_chain = ''solana'', spendingKey = ''0xabcdef123456'',
         viewingKey = ''0x987654fedcba'', label = None \<rparr>)
     = Some \<lparr> meta_chain = ''solana'', spendingKey = ''0xabcdef123456'',
              viewingKey = ''0x987654fedcba'', label = None \<rparr>
   \<and> formatStealthMetaAddress
       \<lparr> meta_chain = ''solana'', spendingKey = ''0xabcdef123456'',
         viewingKey = ''0x987654fedcba'', label = None \<rparr>
     = ''sip:solana:0xabcdef123456:0x987654fedcba''"
proof -
  let ?m = "\<lparr> meta_chain = ''solana'', spendingKey = ''0xabcdef123456'',
              viewingKey = ''0x987654fedcba'', label = None \<rparr>"
  have v: "validMetaAddress ?m"
    by (simp add: validMetaAddress_def supportedChains_def hexRegex_test_def hexDigits1_def
        isHexChar_def startsWith_def)
  show ?thesis
    using v parse_format_roundtrip [OF v, where l = None]
    by (simp add: formatStealthMetaAddress_def)
qed

section \<open>Properties of amount validation\<close>

lemma js_lt_irrefl: "\<not> js_lt x x"
  by (cases x) simp_all

lemma validateAmount_rejects_below_minimum:
  assumes "amt \<noteq> []" "trim amt \<noteq> []"
    and "js_lt (parseFloat amt) double_0_001"
  shows "validateAmount parseFloat amt balance =
     \<lparr> isValid = False,
       error = Some (if js_le (parseFloat amt) (Finite 0)
                     then ''Amount must be greater than 0''
                     else if js_gt (parseFloat amt) balance then ''Insufficient balance''
                     else ''Minimum amount is 0.001 SOL'') \<rparr>"
proof -
  from assms(3) have "parseFloat amt \<noteq> NaN"
    by (cases "parseFloat amt") simp_all
  with assms show ?thesis
    by (simp add: validateAmount_def Let_def isNaN_def)
qed

lemma validateAmount_accepts:
  assumes "amt \<noteq> []" "trim amt \<noteq> []"
    and "js_le double_0_001 (parseFloat amt)" "js_le (parseFloat amt) balance"
  shows "validateAmount parseFloat amt balance = \<lparr> isValid = True, error = None \<rparr>"
proof -
  from assms(3) have nan: "parseFloat amt \<noteq> NaN"
    and min: "\<not> js_lt (parseFloat amt) double_0_001"
    by (simp_all add: js_le_def)
  from assms(4) have bal: "\<not> js_gt (parseFloat amt) balance"
    by (simp add: js_le_def js_gt_def)
  from assms(3) have pos: "\<not> js_le (parseFloat amt) (Finite 0)"
    by (cases "parseFloat amt") (auto simp: js_le_def double_0_001_def)
  from assms(1,2) nan min bal pos show ?thesis
    by (simp add: validateAmount_def Let_def isNaN_def)
qed

lemma send_rejected_amount:
  assumes "\<not> isValid (validateAmount parseFloat (amount params) (Finite 100))"
  shows "\<not> success (snd (send c w parseFloat h n1 n2 params st))
     \<and> res_txHash (snd (send c w parseFloat h n1 n2 params st)) = None
     \<and> payments (fst (send c w parseFloat h n1 n2 params st)) = payments st
     \<and> statusLog (fst (send c w parseFloat h n1 n2 params st))
       = statusLog st @ (if \<not> c \<or> w = None \<or> w = Some [] then []
                         else [st_validating, st_error])"
  using assms
  by (simp add: send_def send_failed_def setStatus_def Let_def)

text \<open>
  C8 as stated fails: an amount below the minimum is not always answered with the minimum
  error. Zero is rejected as not greater than 0, and a positive amount below the minimum
  but above the balance is rejected for the balance.
\<close>

theorem validateAmount_minimum_counterexample:
  "js_lt (Finite 0) double_0_001
   \<and> validateAmount (\<lambda>s. Finite 0) ''0'' (Finite 10)
     = \<lparr> isValid = False, error = Some ''Amount must be greater than 0'' \<rparr>
   \<and> js_lt (Finite (1 / 2048)) double_0_001
   \<and> validateAmount (\<lambda>s. Finite (1 / 2048)) ''0.00048828125'' (Finite (1 / 4096))
     = \<lparr> isValid = False, error = Some ''Insufficient balance'' \<rparr>"
  by (simp add: validateAmount_def double_0_001_def js_le_def js_gt_def isNaN_def trim_def
      isWhiteSpace_def Let_def)

text \<open>
  C8, amended. Let the amount text be non-blank and let the number \<open>parseFloat\<close> reads
  from it be below the minimum (the double 0.001). Then validation rejects it with an
  explicit message in a structured result: "Amount must be greater than 0" when the number
  is not positive, "Insufficient balance" when it exceeds the balance, and otherwise
  "Minimum amount is 0.001 SOL". \<open>send\<close> with such an amount fails without a
  transaction hash: it never reaches the preparing, signing or submitting status and records
  no payment. An amount that is at least the minimum and at most the balance is accepted.
\<close>

theorem validateAmount_minimum:
  assumes "amount params \<noteq> []" "trim (amount params) \<noteq> []"
    and "js_lt (parseFloat (amount params)) double_0_001"
  shows "validateAmount parseFloat (amount params) balance =
     \<lparr> isValid = False,
       error = Some (if js_le (parseFloat (amount params)) (Finite 0)
                     then ''Amount must be greater than 0''
                     else if js_gt (parseFloat (amount params)) balance
                     then ''Insufficient balance''
                     else ''Minimum amount is 0.001 SOL'') \<rparr>
   \<and> \<not> success (snd (send c w parseFloat h n1 n2 params st))
   \<and> res_txHash (snd (send c w parseFloat h n1 n2 params st)) = None
   \<and> payments (fst (send c w parseFloat h n1 n2 params st)) = payments st
   \<and> statusLog (fst (send c w parseFloat h n1 n2 params st))
       = statusLog st @ (if \<not> c \<or> w = None \<or> w = Some [] then []
                         else [st_validating, st_error])
   \<and> (a \<noteq> [] \<and> trim a \<noteq> [] \<and> js_le double_0_001 (parseFloat a)
        \<and> js_le (parseFloat a) balance
      \<longrightarrow> validateAmount parseFloat a balance = \<lparr> isValid = True, error = None \<rparr>)"
proof -
  note rej = validateAmount_rejects_below_minimum [of "amount params" parseFloat balance, OF assms]
  have "\<not> isValid (validateAmount parseFloat (amount params) (Finite 100))"
    by (simp add: validateAmount_rejects_below_minimum
        [of "amount params" parseFloat "Finite 100", OF assms])
  from send_rejected_amount [OF this] rej validateAmount_accepts [of a parseFloat balance]
  show ?thesis by blast
qed

text \<open>
  The scenario of the spec: the amount \<open>0.0001\<close>, which \<open>parseFloat\<close> reads as the
  double 7378697629483821 / 2^66, with a balance of 10 and a connected wallet; and the
  amount \<open>0.001\<close>, read as the double 0.001, which is accepted.
\<close>

theorem validateAmount_minimum_witness:
  "validateAmount
     (\<lambda>s. if s = ''0.0001'' then Finite (7378697629483821 / 2 ^ 66) else double_0_001)
     ''0.0001'' (Finite 10)
     = \<lparr> isValid = False, error = Some ''Minimum amount is 0.001 SOL'' \<rparr>
   \<and> statusLog (fst (send True (Some ''wallet'')
        (\<lambda>s. if s = ''0.0001'' then Finite (7378697629483821 / 2 ^ 66) else double_0_001)
        ''hash'' 1 2
        \<lparr> amount = ''0.0001'', recipient = ''sip:solana:0x1234:0x5678'',
          privacyLevel = (), memo = None \<rparr>
        \<lparr> status = st_idle, send_error = None, txHash = None, payments = [],
          statusLog = [] \<rparr>))
     = [st_validating, st_error]
   \<and> validateAmount
       (\<lambda>s. if s = ''0.0001'' then Finite (7378697629483821 / 2 ^ 66) else double_0_001)
       ''0.001'' (Finite 10)
     = \<lparr> isValid = True, error = None \<rparr>"
proof -
  let ?pf = "\<lambda>s :: string.
    if s = ''0.0001'' then Finite (7378697629483821 / 2 ^ 66) else double_0_001"
  let ?p = "\<lparr> amount = ''0.0001'', recipient = ''sip:solana:0x1234:0x5678'',
              privacyLevel = (), memo = None \<rparr>"
  let ?st = "\<lparr> status = st_idle, send_error = None, txHash = None,
               payments = ([] :: unit SentPayment list), statusLog = [] \<rparr>"
  have h1: "amount ?p \<noteq> []" by simp
  have h2: "trim (amount ?p) \<noteq> []" by (simp add: trim_def isWhiteSpace_def)
  have h3: "js_lt (?pf (amount ?p)) double_0_001" by (simp add: double_0_001_def)
  have a1: "''0.001'' \<noteq> [] \<and> trim ''0.001'' \<noteq> [] \<and> js_le double_0_001 (?pf ''0.001'')
            \<and> js_le (?pf ''0.001'') (Finite 10)"
    by (simp add: trim_def isWhiteSpace_def double_0_001_def js_le_def)
  have sel: "\<not> js_le (?pf (amount ?p)) (Finite 0) \<and> \<not> js_gt (?pf (amount ?p)) (Finite 10)"
    by (simp add: js_le_def js_gt_def)
  note w = validateAmount_minimum [of ?p ?pf "Finite 10" True "Some ''wallet''"
      "''hash''" 1 2 ?st "''0.001''", OF h1 h2 h3]
  have rejected: "validateAmount ?pf ''0.0001'' (Finite 10)
      = \<lparr> isValid = False, error = Some ''Minimum amount is 0.001 SOL'' \<rparr>"
    using w [THEN conjunct1] sel by simp
  have log: "statusLog (fst (send True (Some ''wallet'') ?pf ''hash'' 1 2 ?p ?st))
      = [st_validating, st_error]"
    using w [THEN conjunct2, THEN conjunct2, THEN conjunct2, THEN conjunct2, THEN conjunct1]
    by simp
  have accepted: "validateAmount ?pf ''0.001'' (Finite 10) = \<lparr> isValid = True, error = None \<rparr>"
    using w [THEN conjunct2, THEN conjunct2, THEN conjunct2, THEN conjunct2, THEN conjunct2]
      a1 by blast
  from rejected log accepted show ?thesis by blast
qed

section \<open>Properties of the scan flow\<close>

lemma scanBatch_append:
  "scanBatch E d (xs @ ys) r = scanBatch E d ys (scanBatch E d xs r)"
  by (induction xs arbitrary: r) (simp_all add: Let_def)

text \<open>Batching does not change the outcome: the loop is one pass over the list.\<close>

lemma scanLoop_single_pass:
  "scanLoop E d anns i r = scanBatch E d (drop i anns) r"
proof (induction E d anns i r rule: scanLoop.induct)
  case (1 E d anns i r)
  show ?case
  proof (cases "i < length anns")
    case True
    have "drop i anns = take BATCH_SIZE (drop i anns) @ drop (i + BATCH_SIZE) anns"
      by (metis add.commute append_take_drop_id drop_drop)
    then have "scanBatch E d (drop i anns) r
        = scanBatch E d (drop (i + BATCH_SIZE) anns)
            (scanBatch E d (take BATCH_SIZE (drop i anns)) r)"
      by (metis scanBatch_append)
    with True "1.IH" show ?thesis
      by (subst scanLoop.simps) simp
  next
    case False
    then show ?thesis
      by (subst scanLoop.simps) simp
  qed
qed

lemma scanBatch_known:
  assumes "\<forall>a \<in> set anns. isOurs a \<longrightarrow> ann_txHash a \<in> E"
  shows "scanBatch E d anns r = r\<lparr>scanned := scanned r + length anns\<rparr>"
  using assms by (induction anns arbitrary: r) (auto simp: Let_def)

lemma scanBatch_newPayments_mono:
  "set (map pay_txHash (newPayments r))
     \<subseteq> set (map pay_txHash (newPayments (scanBatch E d anns r)))"
proof (induction anns arbitrary: r)
  case Nil
  show ?case by simp
next
  case (Cons a anns)
  show ?case
    using Cons [of "r\<lparr>scanned := scanned r + 1\<rparr>"]
      Cons [of "r\<lparr>scanned := scanned r + 1, found := found r + 1,
                 newPayments := newPayments r @ [p]\<rparr>" for p]
    by (auto simp: Let_def)
qed

lemma scanBatch_step_owned:
  assumes "isOurs b" "ann_txHash b \<notin> E"
  shows "\<exists>p. pay_txHash p = ann_txHash b
     \<and> scanBatch E d (b # anns) r
       = scanBatch E d anns
           (r\<lparr>scanned := scanned r + 1, found := found r + 1,
                newPayments := newPayments r @ [p]\<rparr>)"
  using assms
  apply (simp add: Let_def)
  apply (rule exI, rule conjI)
   prefer 2
   apply (rule refl)
  apply simp
  done

lemma scanBatch_covers:
  assumes "a \<in> set anns" "isOurs a" "ann_txHash a \<notin> E"
  shows "ann_txHash a \<in> set (map pay_txHash (newPayments (scanBatch E d anns r)))"
  using assms
proof (induction anns arbitrary: r)
  case Nil
  then show ?case by simp
next
  case (Cons b anns)
  show ?case
  proof (cases "a = b")
    case True
    with Cons.prems obtain p where p: "pay_txHash p = ann_txHash b"
      and step: "scanBatch E d (b # anns) r
        = scanBatch E d anns
            (r\<lparr>scanned := scanned r + 1, found := found r + 1,
                 newPayments := newPayments r @ [p]\<rparr>)"
      using scanBatch_step_owned [of b E d anns r] by blast
    let ?r = "r\<lparr>scanned := scanned r + 1, found := found r + 1,
                newPayments := newPayments r @ [p]\<rparr>"
    have "ann_txHash b \<in> set (map pay_txHash (newPayments ?r))"
      using p by simp
    then show ?thesis
      using scanBatch_newPayments_mono [of ?r E d anns] True step by auto
  next
    case False
    with Cons.prems have "a \<in> set anns" by simp
    from Cons.IH [OF this Cons.prems(2,3)] show ?thesis
      by (simp add: Let_def)
  qed
qed

lemma executeScanFlow_result:
  assumes "mockAnnouncements options = Some anns"
  shows "snd (executeScanFlow g d (Some k) E options)
         = scanBatch E d
             (case fromTimestamp options of
                None \<Rightarrow> anns
              | Some t \<Rightarrow> if t = 0 then anns else filter (\<lambda>a. ann_timestamp a > t) anns)
             \<lparr> found = 0, scanned = 0, newPayments = [], errors = [] \<rparr>"
  using assms
  by (simp add: executeScanFlow_def Let_def scanLoop_single_pass)

text \<open>
  C9. Scanning is idempotent with respect to known transfers. Take a fixed announcement
  set (carried by the options) and the same keys and options in both runs; the clock and
  the unused generator may differ. If the second run's known set holds the first run's
  known set and the transaction hashes of the payments the first run reported, the second
  run finds nothing: \<open>found\<close> is 0 and \<open>newPayments\<close> is empty. The reason is the
  skip: an announcement whose transaction hash is known is counted as scanned and passed
  over before its ownership is looked at.
\<close>

theorem executeScanFlow_idempotent:
  assumes fixed: "mockAnnouncements options = Some anns"
    and seeded: "E1 \<union> set (map pay_txHash
                   (newPayments (snd (executeScanFlow g1 d1 keys E1 options)))) \<subseteq> E2"
  shows "found (snd (executeScanFlow g2 d2 keys E2 options)) = 0
     \<and> newPayments (snd (executeScanFlow g2 d2 keys E2 options)) = []
     \<and> (ann_txHash a \<in> E2 \<longrightarrow>
          scanBatch E2 d2 (a # rest) r = scanBatch E2 d2 rest (r\<lparr>scanned := scanned r + 1\<rparr>))"
proof (cases keys)
  case None
  then show ?thesis by (simp add: executeScanFlow_def Let_def)
next
  case (Some k)
  define fl where "fl = (case fromTimestamp options of
                None \<Rightarrow> anns
              | Some t \<Rightarrow> if t = 0 then anns else filter (\<lambda>a. ann_timestamp a > t) anns)"
  define r0 where "r0 = \<lparr> found = 0, scanned = 0, newPayments = [], errors = [] \<rparr>"
  have first: "snd (executeScanFlow g1 d1 keys E1 options) = scanBatch E1 d1 fl r0"
    unfolding Some fl_def r0_def by (rule executeScanFlow_result [OF fixed])
  have second: "snd (executeScanFlow g2 d2 keys E2 options) = scanBatch E2 d2 fl r0"
    unfolding Some fl_def r0_def by (rule executeScanFlow_result [OF fixed])
  have known: "\<forall>a \<in> set fl. isOurs a \<longrightarrow> ann_txHash a \<in> E2"
  proof (intro ballI impI)
    fix a assume a: "a \<in> set fl" "isOurs a"
    show "ann_txHash a \<in> E2"
    proof (cases "ann_txHash a \<in> E1")
      case True
      with seeded show ?thesis by auto
    next
      case False
      from scanBatch_covers [OF a False, of d1 r0] first seeded show ?thesis by auto
    qed
  qed
  have "scanBatch E2 d2 fl r0 = r0\<lparr>scanned := scanned r0 + length fl\<rparr>"
    using known by (rule scanBatch_known)
  with second show ?thesis by (simp add: r0_def Let_def)
qed

text \<open>
  Three announcements, the last two ours: the first run, knowing nothing, finds two
  payments; the second run, seeded with their transaction hashes, finds none.
\<close>

theorem executeScanFlow_idempotent_witness:
  "found (snd (executeScanFlow (\<lambda>n ours. []) (\<lambda>n. 17)
       (Some \<lparr> spendingPrivateKey = ''0xab'', viewingPrivateKey = ''0xcd'' \<rparr>) {}
       \<lparr> limit = None, fromTimestamp = None,
         mockAnnouncements = Some
           [\<lparr> ann_id = ''ann_0'', ann_ephemeralPubKey = ''0x02ab00'',
              ann_stealthAddress = ''0xcd'', ann_amount = ''1.0000'', ann_token = ''SOL'',
              ann_timestamp = 1000, ann_txHash = ''ef0'', isOurs = False \<rparr>,
            \<lparr> ann_id = ''ann_1'', ann_ephemeralPubKey = ''0x02ab01'',
              ann_stealthAddress = ''MATCH'', ann_amount = ''5.5000'', ann_token = ''SOL'',
              ann_timestamp = 1001, ann_txHash = ''ef1'', isOurs = True \<rparr>,
            \<lparr> ann_id = ''ann_2'', ann_ephemeralPubKey = ''0x02ab02'',
              ann_stealthAddress = ''MATCH'', ann_amount = ''2.2500'', ann_token = ''SOL'',
              ann_timestamp = 1002, ann_txHash = ''ef2'', isOurs = True \<rparr>] \<rparr>)) = 2
   \<and> found (snd (executeScanFlow (\<lambda>n ours. []) (\<lambda>n. 18)
       (Some \<lparr> spendingPrivateKey = ''0xab'', viewingPrivateKey = ''0xcd'' \<rparr>)
       {''ef1'', ''ef2''}
       \<lparr> limit = None, fromTimestamp = None,
         mockAnnouncements = Some
           [\<lparr> ann_id = ''ann_0'', ann_ephemeralPubKey = ''0x02ab00'',
              ann_stealthAddress = ''0xcd'', ann_amount = ''1.0000'', ann_token = ''SOL'',
              ann_timestamp = 1000, ann_txHash = ''ef0'', isOurs = False \<rparr>,
            \<lparr> ann_id = ''ann_1'', ann_ephemeralPubKey = ''0x02ab01'',
              ann_stealthAddress = ''MATCH'', ann_amount = ''5.5000'', ann_token = ''SOL'',
              ann_timestamp = 1001, ann_txHash = ''ef1'', isOurs = True \<rparr>,
            \<lparr> ann_id = ''ann_2'', ann_ephemeralPubKey = ''0x02ab02'',
              ann_stealthAddress = ''MATCH'', ann_amount = ''2.2500'', ann_token = ''SOL'',
              ann_timestamp = 1002, ann_txHash = ''ef2'', isOurs = True \<rparr>] \<rparr>)) = 0"
proof -
  let ?k = "Some \<lparr> spendingPrivateKey = ''0xab'', viewingPrivateKey = ''0xcd'' \<rparr>"
  let ?anns =
    "[\<lparr> ann_id = ''ann_0'', ann_ephemeralPubKey = ''0x02ab00'',
        ann_stealthAddress = ''0xcd'', ann_amount = ''1.0000'', ann_token = ''SOL'',
        ann_timestamp = 1000, ann_txHash = ''ef0'', isOurs = False \<rparr>,
      \<lparr> ann_id = ''ann_1'', ann_ephemeralPubKey = ''0x02ab01'',
        ann_stealthAddress = ''MATCH'', ann_amount = ''5.5000'', ann_token = ''SOL'',
        ann_timestamp = 1001, ann_txHash = ''ef1'', isOurs = True \<rparr>,
      \<lparr> ann_id = ''ann_2'', ann_ephemeralPubKey = ''0x02ab02'',
        ann_stealthAddress = ''MATCH'', ann_amount = ''2.2500'', ann_token = ''SOL'',
        ann_timestamp = 1002, ann_txHash = ''ef2'', isOurs = True \<rparr>]"
  let ?o = "\<lparr> limit = None, fromTimestamp = None, mockAnnouncements = Some ?anns \<rparr>"
  let ?r1 = "snd (executeScanFlow (\<lambda>n ours. []) (\<lambda>n. 17) ?k {} ?o)"
  have r1: "?r1 = scanBatch {} (\<lambda>n. 17) ?anns
                    \<lparr> found = 0, scanned = 0, newPayments = [], errors = [] \<rparr>"
    by (simp add: executeScanFlow_result)
  have one: "found ?r1 = 2"
    unfolding r1 by (simp add: Let_def)
  have hashes: "map pay_txHash (newPayments ?r1) = [''ef1'', ''ef2'']"
    unfolding r1 by (simp add: Let_def)
  have fixed: "mockAnnouncements ?o = Some ?anns"
    by simp
  have seeded: "{} \<union> set (map pay_txHash (newPayments ?r1)) \<subseteq> {''ef1'', ''ef2''}"
    unfolding hashes by simp
  from executeScanFlow_idempotent [OF fixed seeded] one show ?thesis
    by blast
qed

section \<open>Properties of the client factory\<close>

lemma getSipPrivacyClient_calls_cached:
  "getSipPrivacyClient_calls d cs (Some c) = (replicate (length cs) c, Some c)"
  by (induction cs) (auto simp: getSipPrivacyClient_def)

text \<open>
  C10. \<open>getSipPrivacyClient\<close> memoizes: starting from the empty module state, the first
  call builds the client from its own arguments; every later call, whatever connection or
  program id it passes, returns that same client and leaves the cache as it is; after
  \<open>resetSipPrivacyClient\<close> the cache is null again and the next call builds a new client
  from its arguments.
\<close>

theorem getSipPrivacyClient_singleton:
  "getSipPrivacyClient d c1 p1 None
     = (new_SipPrivacyClient d c1 p1, Some (new_SipPrivacyClient d c1 p1))
   \<and> getSipPrivacyClient_calls d later (snd (getSipPrivacyClient d c1 p1 None))
     = (replicate (length later) (new_SipPrivacyClient d c1 p1),
        Some (new_SipPrivacyClient d c1 p1))
   \<and> resetSipPrivacyClient (snd (getSipPrivacyClient_calls d later
        (snd (getSipPrivacyClient d c1 p1 None)))) = None
   \<and> fst (getSipPrivacyClient d c2 p2 (resetSipPrivacyClient st))
     = new_SipPrivacyClient d c2 p2"
proof -
  let ?c = "new_SipPrivacyClient d c1 p1"
  have first: "getSipPrivacyClient d c1 p1 None = (?c, Some ?c)"
    by (simp add: getSipPrivacyClient_def Let_def)
  have later: "getSipPrivacyClient_calls d later (Some ?c)
               = (replicate (length later) ?c, Some ?c)"
    by (rule getSipPrivacyClient_calls_cached)
  have fresh: "fst (getSipPrivacyClient d c2 p2 (resetSipPrivacyClient st))
               = new_SipPrivacyClient d c2 p2"
    by (simp add: getSipPrivacyClient_def resetSipPrivacyClient_def Let_def)
  show ?thesis
    using first later fresh by (simp add: resetSipPrivacyClient_def)
qed

section \<open>Properties of the buffer operations\<close>

lemma length_le_bytes: "length (le_bytes k n) = k"
  by (induction k arbitrary: n) simp_all

lemma le_nat_le_bytes: "le_nat (le_bytes k n) = n mod 256 ^ k"
proof (induction k arbitrary: n)
  case 0
  show ?case by simp
next
  case (Suc k)
  have "unat (of_nat (n mod 256) :: byte) = n mod 256"
    by (simp add: unat_of_nat)
  then have "le_nat (le_bytes (Suc k) n) = n mod 256 + 256 * (n div 256 mod 256 ^ k)"
    by (simp add: Suc)
  also have "\<dots> = n mod (256 * 256 ^ k)"
    by (simp add: mod_mult2_eq)
  finally show ?case by simp
qed

lemma length_copy: "length (copy src target off) = length target"
  by (auto simp: copy_def Let_def min_def)


lemma copy_zeros':
  assumes "length pre = off" "m = length src + m'"
  shows "copy src (pre @ replicate m 0) off = (pre @ src) @ replicate m' 0"
  using assms by (simp add: copy_def Let_def min_def)

lemma writeUInt32LE_zeros':
  assumes "length pre = off" "m = 4 + m'" "n < 2 ^ 32"
  shows "writeUInt32LE (int n) off (pre @ replicate m 0)
         = Inr ((pre @ le_bytes 4 n) @ replicate m' 0)"
  using assms by (simp add: writeUInt32LE_def)

lemma writeBigUInt64LE_zeros':
  assumes "length pre = off" "0 \<le> v" "v < 2 ^ 64"
  shows "writeBigUInt64LE v off (pre @ replicate 8 0) = Inr (pre @ le_bytes 8 (nat v))"
  using assms by (simp add: writeBigUInt64LE_def)

lemma length_Buffer_from: "length (Buffer_from xs) = length xs"
  by (simp add: Buffer_from_def)

lemma encode_layout:
  assumes ac: "length (amountCommitment args) = 33"
    and sp: "length (toBuffer (stealthPubkey args)) = 32"
    and ep: "length (ephemeralPubkey args) = 33"
    and vk: "length (viewingKeyHash args) = 32"
    and e: "length (encryptedAmount args) < 2 ^ 32"
    and p: "length (proof' args) < 2 ^ 32"
    and amt: "0 \<le> actualAmount args" "actualAmount args < 2 ^ 64"
  shows "encodeShieldedTransferData args =
     Inr (discriminator @ Buffer_from (amountCommitment args) @ toBuffer (stealthPubkey args)
          @ Buffer_from (ephemeralPubkey args) @ Buffer_from (viewingKeyHash args)
          @ le_bytes 4 (length (encryptedAmount args)) @ encryptedAmount args
          @ le_bytes 4 (length (proof' args)) @ proof' args
          @ le_bytes 8 (nat (actualAmount args)))"
proof -
  let ?e = "length (encryptedAmount args)" and ?p = "length (proof' args)"
  let ?AC = "Buffer_from (amountCommitment args)" and ?SP = "toBuffer (stealthPubkey args)"
  let ?EP = "Buffer_from (ephemeralPubkey args)" and ?VK = "Buffer_from (viewingKeyHash args)"
  let ?b1 = "discriminator"
  let ?b2 = "?b1 @ ?AC"
  let ?b3 = "?b2 @ ?SP"
  let ?b4 = "?b3 @ ?EP"
  let ?b5 = "?b4 @ ?VK"
  let ?b6 = "?b5 @ le_bytes 4 ?e"
  let ?b7 = "?b6 @ encryptedAmount args"
  let ?b8 = "?b7 @ le_bytes 4 ?p"
  let ?b9 = "?b8 @ proof' args"
  have d: "length discriminator = 8" by (simp add: discriminator_def)
  have s1: "copy discriminator (Buffer_alloc (8 + 33 + 32 + 33 + 32 + 4 + ?e + 4 + ?p + 8)) 0
            = ?b1 @ replicate (146 + ?e + ?p) 0"
    using copy_zeros' [of "[]" 0 "146 + ?e + ?p + 8" discriminator "146 + ?e + ?p"]
    by (simp add: Buffer_alloc_def d add.commute)
  have s2: "copy ?AC (?b1 @ replicate (146 + ?e + ?p) 0) (0 + 8)
            = ?b2 @ replicate (113 + ?e + ?p) 0"
    by (rule copy_zeros') (simp_all add: d length_Buffer_from ac)
  have s3: "copy ?SP (?b2 @ replicate (113 + ?e + ?p) 0) (0 + 8 + 33)
            = ?b3 @ replicate (81 + ?e + ?p) 0"
    by (rule copy_zeros') (simp_all add: d length_Buffer_from ac sp)
  have s4: "copy ?EP (?b3 @ replicate (81 + ?e + ?p) 0) (0 + 8 + 33 + 32)
            = ?b4 @ replicate (48 + ?e + ?p) 0"
    by (rule copy_zeros') (simp_all add: d length_Buffer_from ac sp ep)
  have s5: "copy ?VK (?b4 @ replicate (48 + ?e + ?p) 0) (0 + 8 + 33 + 32 + 33)
            = ?b5 @ replicate (16 + ?e + ?p) 0"
    by (rule copy_zeros') (simp_all add: d length_Buffer_from ac sp ep vk)
  have s6: "writeUInt32LE (int ?e) (0 + 8 + 33 + 32 + 33 + 32) (?b5 @ replicate (16 + ?e + ?p) 0)
            = Inr (?b6 @ replicate (12 + ?e + ?p) 0)"
    by (rule writeUInt32LE_zeros') (insert e, simp_all add: d length_Buffer_from ac sp ep vk)
  have s7: "copy (encryptedAmount args) (?b6 @ replicate (12 + ?e + ?p) 0)
              (0 + 8 + 33 + 32 + 33 + 32 + 4)
            = ?b7 @ replicate (12 + ?p) 0"
    by (rule copy_zeros')
       (simp_all add: d length_Buffer_from ac sp ep vk length_le_bytes)
  have s8: "writeUInt32LE (int ?p) (0 + 8 + 33 + 32 + 33 + 32 + 4 + ?e)
              (?b7 @ replicate (12 + ?p) 0)
            = Inr (?b8 @ replicate (8 + ?p) 0)"
    by (rule writeUInt32LE_zeros')
       (insert p, simp_all add: d length_Buffer_from ac sp ep vk length_le_bytes)
  have s9: "copy (proof' args) (?b8 @ replicate (8 + ?p) 0)
              (0 + 8 + 33 + 32 + 33 + 32 + 4 + ?e + 4)
            = ?b9 @ replicate 8 0"
    by (rule copy_zeros')
       (simp_all add: d length_Buffer_from ac sp ep vk length_le_bytes)
  have s10: "writeBigUInt64LE (actualAmount args)
               (0 + 8 + 33 + 32 + 33 + 32 + 4 + ?e + 4 + ?p) (?b9 @ replicate 8 0)
             = Inr (?b9 @ le_bytes 8 (nat (actualAmount args)))"
    by (rule writeBigUInt64LE_zeros')
       (insert amt, simp_all add: d length_Buffer_from ac sp ep vk length_le_bytes)
  show ?thesis
    unfolding encodeShieldedTransferData_def Let_def
    by (simp only: s1 s2 s3 s4 s5 s6 s7 s8 s9 s10 sum.case) simp
qed

lemma encode_range:
  "encodeShieldedTransferData args =
     (if length (encryptedAmount args) < 2 ^ 32 \<and> length (proof' args) < 2 ^ 32
         \<and> 0 \<le> actualAmount args \<and> actualAmount args < 2 ^ 64
      then encodeShieldedTransferData args else Inl RangeError)"
  by (simp add: encodeShieldedTransferData_def Let_def writeUInt32LE_def writeBigUInt64LE_def
      length_copy length_le_bytes Buffer_alloc_def)

lemma encode_returns:
  assumes "length (encryptedAmount args) < 2 ^ 32" "length (proof' args) < 2 ^ 32"
    "0 \<le> actualAmount args" "actualAmount args < 2 ^ 64"
  shows "\<exists>buf. encodeShieldedTransferData args = Inr buf"
  using assms
  by (simp add: encodeShieldedTransferData_def Let_def writeUInt32LE_def writeBigUInt64LE_def
      length_copy length_le_bytes Buffer_alloc_def)

lemma encode_length:
  assumes "encodeShieldedTransferData args = Inr buf"
  shows "length buf = 8 + 33 + 32 + 33 + 32 + 4 + length (encryptedAmount args) + 4
                        + length (proof' args) + 8"
  using assms
  by (auto simp: encodeShieldedTransferData_def Let_def writeUInt32LE_def writeBigUInt64LE_def
      length_copy length_le_bytes Buffer_alloc_def split: if_splits)

section \<open>Properties of config decoding\<close>

lemma new_PublicKey_32:
  assumes "length bytes = 32"
  shows "new_PublicKey bytes = Inr bytes"
proof -
  let ?sig = "dropWhile (\<lambda>b. b = 0) bytes"
  have split: "takeWhile (\<lambda>b. b = 0) bytes @ ?sig = bytes"
    by simp
  have zeros: "takeWhile (\<lambda>b. b = 0) bytes = replicate (length (takeWhile (\<lambda>b. b = 0) bytes)) 0"
    by (metis (mono_tags, lifting) replicate_length_same set_takeWhileD)
  have "length (takeWhile (\<lambda>b. b = 0) bytes) + length ?sig = 32"
    using assms by (metis split length_append)
  then have len: "length (takeWhile (\<lambda>b. b = 0) bytes) = 32 - length ?sig"
    and le: "length ?sig \<le> 32"
    by arith+
  have "replicate (32 - length ?sig) 0 @ ?sig = bytes"
    using zeros split len by metis
  with le show ?thesis
    by (simp add: new_PublicKey_def Let_def)
qed

lemma new_PublicKey_short:
  assumes "length bytes \<le> 32"
  shows "\<exists>pk. new_PublicKey bytes = Inr pk \<and> length pk = 32"
proof -
  have "length (dropWhile (\<lambda>b. b = 0) bytes) \<le> length bytes"
    by (rule length_dropWhile_le)
  with assms show ?thesis
    by (simp add: new_PublicKey_def Let_def)
qed

lemma le_nat_2: "n < 2 ^ 16 \<Longrightarrow> le_nat (le_bytes 2 n) = n"
  by (simp only: le_nat_le_bytes) simp

lemma le_nat_8: "n < 2 ^ 64 \<Longrightarrow> le_nat (le_bytes 8 n) = n"
  by (simp only: le_nat_le_bytes) simp

lemma fetchConfig_layout:
  assumes "length disc = 8" "length auth = 32" "length fc = 32" "fee < 2 ^ 16" "tt < 2 ^ 64"
  shows "fetchConfig (Inr (Some
           (disc @ auth @ fc @ le_bytes 2 fee @ [p] @ le_bytes 8 tt @ [b] @ rest)))
     = Some \<lparr> authority = auth, feeCollector = fc, feeBps = fee, paused = (p = 1),
              totalTransfers = tt, bump = Some b \<rparr>"
proof -
  define data where "data = auth @ fc @ le_bytes 2 fee @ [p] @ le_bytes 8 tt @ [b] @ rest"
  have raw: "disc @ auth @ fc @ le_bytes 2 fee @ [p] @ le_bytes 8 tt @ [b] @ rest
             = disc @ data"
    by (simp add: data_def)
  have dat: "slice_from (disc @ data) 8 = data"
    using assms(1) by (simp add: slice_from_def)
  have a: "new_PublicKey (slice data 0 32) = Inr auth"
    using assms(2) by (simp add: data_def slice_def new_PublicKey_32)
  have f: "new_PublicKey (slice data 32 64) = Inr fc"
    using assms(2,3) by (simp add: data_def slice_def new_PublicKey_32)
  have fee: "readUInt16LE data 64 = Inr fee"
    using assms(2,3,4) by (simp add: data_def readUInt16LE_def length_le_bytes le_nat_2)
  have p: "at_index data 66 = Some p"
    using assms(2,3) by (simp add: data_def at_index_def length_le_bytes nth_append)
  have tt: "readBigUInt64LE data 67 = Inr tt"
    using assms(2,3,5) by (simp add: data_def readBigUInt64LE_def length_le_bytes le_nat_8)
  have b: "at_index data 75 = Some b"
    using assms(2,3) by (simp add: data_def at_index_def length_le_bytes nth_append)
  show ?thesis
    unfolding raw fetchConfig_def fetchConfig_try_def
    by (simp add: dat a f fee p tt b Let_def)
qed

lemma fetchConfig_try_truncated:
  assumes "length raw < 83"
  shows "fetchConfig_try (Inr (Some raw)) = Inl RangeError"
proof -
  let ?data = "slice_from raw 8"
  have len: "length ?data < 75"
    using assms by (simp add: slice_from_def)
  obtain a where a: "new_PublicKey (slice ?data 0 32) = Inr a"
    using new_PublicKey_short [of "slice ?data 0 32"] by (auto simp: slice_def)
  obtain f where f: "new_PublicKey (slice ?data 32 64) = Inr f"
    using new_PublicKey_short [of "slice ?data 32 64"] by (auto simp: slice_def)
  show ?thesis
  proof (cases "length ?data < 66")
    case True
    then have "readUInt16LE ?data 64 = Inl RangeError"
      by (simp add: readUInt16LE_def)
    then show ?thesis
      by (simp add: fetchConfig_try_def Let_def a f)
  next
    case False
    then obtain n where "readUInt16LE ?data 64 = Inr n"
      by (simp add: readUInt16LE_def)
    moreover have "readBigUInt64LE ?data 67 = Inl RangeError"
      using len by (simp add: readBigUInt64LE_def)
    ultimately show ?thesis
      by (simp add: fetchConfig_try_def Let_def a f)
  qed
qed


section \<open>The instruction and account formats\<close>

lemma le_nat_4: "n < 2 ^ 32 \<Longrightarrow> le_nat (le_bytes 4 n) = n"
  by (simp only: le_nat_le_bytes) simp

lemma le_bytes_add:
  "le_bytes (j + k) n = le_bytes j n @ le_bytes k (n div 256 ^ j)"
  by (induction j arbitrary: n) (simp_all add: div_mult2_eq)

lemma le_bytes_2:
  "le_bytes 2 n = [of_nat (n mod 256), of_nat (n div 256 mod 256)]"
proof -
  have "le_bytes (Suc (Suc 0)) n = [of_nat (n mod 256), of_nat (n div 256 mod 256)]"
    by simp
  then show ?thesis by (simp add: numeral_2_eq_2)
qed

lemma le_bytes_4:
  "le_bytes 4 n = le_bytes 2 n @ le_bytes 2 (n div 65536)"
  using le_bytes_add [of 2 2 n] by simp

lemma le_bytes_8:
  "le_bytes 8 n = le_bytes 4 n @ le_bytes 4 (n div 4294967296)"
  using le_bytes_add [of 4 4 n] by simp

text \<open>
  C1. \<open>encodeShieldedTransferData\<close> writes the 8-byte discriminator and then, in this
  order, the amount commitment (33 bytes), the stealth public key (32), the ephemeral
  public key (33), the viewing key hash (32), the length of the encrypted amount as u32
  little-endian and its bytes, the length of the proof as u32 little-endian and its bytes,
  and the amount as u64 little-endian, for arguments whose fields have these widths, whose
  two lengths fit a u32 and whose amount fits a u64. Whatever the widths of the three
  arrays, the function returns exactly when the lengths and the amount are in those ranges
  (otherwise a write throws a \<open>RangeError\<close>), and the buffer it returns has
  8+33+32+33+32+4+len(encryptedAmount)+4+len(proof)+8 bytes.
\<close>

theorem encodeShieldedTransferData_layout:
  "(length (amountCommitment args) = 33 \<and> length (toBuffer (stealthPubkey args)) = 32
      \<and> length (ephemeralPubkey args) = 33 \<and> length (viewingKeyHash args) = 32
      \<and> length (encryptedAmount args) < 2 ^ 32 \<and> length (proof' args) < 2 ^ 32
      \<and> 0 \<le> actualAmount args \<and> actualAmount args < 2 ^ 64
    \<longrightarrow> encodeShieldedTransferData args =
          Inr (discriminator @ Buffer_from (amountCommitment args)
               @ toBuffer (stealthPubkey args) @ Buffer_from (ephemeralPubkey args)
               @ Buffer_from (viewingKeyHash args)
               @ le_bytes 4 (length (encryptedAmount args)) @ encryptedAmount args
               @ le_bytes 4 (length (proof' args)) @ proof' args
               @ le_bytes 8 (nat (actualAmount args)))
        \<and> le_nat (le_bytes 4 (length (encryptedAmount args))) = length (encryptedAmount args)
        \<and> le_nat (le_bytes 4 (length (proof' args))) = length (proof' args)
        \<and> le_nat (le_bytes 8 (nat (actualAmount args))) = nat (actualAmount args))
   \<and> length discriminator = 8
   \<and> (\<forall>buf. encodeShieldedTransferData args = Inr buf \<longrightarrow>
         length buf = 8 + 33 + 32 + 33 + 32 + 4 + length (encryptedAmount args) + 4
                        + length (proof' args) + 8)
   \<and> ((\<exists>buf. encodeShieldedTransferData args = Inr buf)
        = (length (encryptedAmount args) < 2 ^ 32 \<and> length (proof' args) < 2 ^ 32
           \<and> 0 \<le> actualAmount args \<and> actualAmount args < 2 ^ 64))
   \<and> (encodeShieldedTransferData args = Inl RangeError
        \<or> (\<exists>buf. encodeShieldedTransferData args = Inr buf))"
proof -
  let ?inRange = "length (encryptedAmount args) < 2 ^ 32 \<and> length (proof' args) < 2 ^ 32
           \<and> 0 \<le> actualAmount args \<and> actualAmount args < 2 ^ 64"
  have layout: "length (amountCommitment args) = 33 \<and> length (toBuffer (stealthPubkey args)) = 32
      \<and> length (ephemeralPubkey args) = 33 \<and> length (viewingKeyHash args) = 32 \<and> ?inRange
    \<longrightarrow> encodeShieldedTransferData args =
          Inr (discriminator @ Buffer_from (amountCommitment args)
               @ toBuffer (stealthPubkey args) @ Buffer_from (ephemeralPubkey args)
               @ Buffer_from (viewingKeyHash args)
               @ le_bytes 4 (length (encryptedAmount args)) @ encryptedAmount args
               @ le_bytes 4 (length (proof' args)) @ proof' args
               @ le_bytes 8 (nat (actualAmount args)))"
    using encode_layout [of args] by blast
  have prefixes: "?inRange \<longrightarrow>
        le_nat (le_bytes 4 (length (encryptedAmount args))) = length (encryptedAmount args)
        \<and> le_nat (le_bytes 4 (length (proof' args))) = length (proof' args)
        \<and> le_nat (le_bytes 8 (nat (actualAmount args))) = nat (actualAmount args)"
  proof
    assume r: ?inRange
    then have "nat (actualAmount args) < 2 ^ 64" by (simp add: nat_less_iff)
    with r show "le_nat (le_bytes 4 (length (encryptedAmount args))) = length (encryptedAmount args)
        \<and> le_nat (le_bytes 4 (length (proof' args))) = length (proof' args)
        \<and> le_nat (le_bytes 8 (nat (actualAmount args))) = nat (actualAmount args)"
      by (simp add: le_nat_4 le_nat_8)
  qed
  have d: "length discriminator = 8"
    by (simp add: discriminator_def)
  have len: "\<forall>buf. encodeShieldedTransferData args = Inr buf \<longrightarrow>
         length buf = 8 + 33 + 32 + 33 + 32 + 4 + length (encryptedAmount args) + 4
                        + length (proof' args) + 8"
    using encode_length [of args] by blast
  have returns: "(\<exists>buf. encodeShieldedTransferData args = Inr buf) = ?inRange"
  proof
    assume "\<exists>buf. encodeShieldedTransferData args = Inr buf"
    then show ?inRange
      using encode_range [of args] by (metis Inl_Inr_False)
  next
    assume ?inRange
    then show "\<exists>buf. encodeShieldedTransferData args = Inr buf"
      using encode_returns [of args] by blast
  qed
  have either: "encodeShieldedTransferData args = Inl RangeError
        \<or> (\<exists>buf. encodeShieldedTransferData args = Inr buf)"
    using encode_range [of args] returns by metis
  from layout prefixes d len returns either show ?thesis
    by blast
qed

text \<open>
  The example of the spec: an encrypted amount of 64 bytes and a proof of 128 bytes give
  346 bytes, with every field at its place.
\<close>

theorem encodeShieldedTransferData_layout_witness:
  "encodeShieldedTransferData
     \<lparr> amountCommitment = replicate 33 2, stealthPubkey = replicate 32 7,
       ephemeralPubkey = replicate 33 3, viewingKeyHash = replicate 32 9,
       encryptedAmount = replicate 64 170, proof' = replicate 128 187,
       actualAmount = 1000000 \<rparr>
   = Inr (discriminator @ replicate 33 2 @ replicate 32 7 @ replicate 33 3 @ replicate 32 9
          @ [64, 0, 0, 0] @ replicate 64 170 @ [128, 0, 0, 0] @ replicate 128 187
          @ [64, 66, 15, 0, 0, 0, 0, 0])
   \<and> length (discriminator @ replicate 33 2 @ replicate 32 7 @ replicate 33 3
          @ replicate 32 (9 :: byte)
          @ [64, 0, 0, 0] @ replicate 64 170 @ [128, 0, 0, 0] @ replicate 128 187
          @ [64, 66, 15, 0, 0, 0, 0, 0]) = 346"
proof -
  let ?args = "\<lparr> amountCommitment = replicate 33 2, stealthPubkey = replicate 32 7,
       ephemeralPubkey = replicate 33 3, viewingKeyHash = replicate 32 9,
       encryptedAmount = replicate 64 170, proof' = replicate 128 187,
       actualAmount = 1000000 \<rparr>"
  have hyp: "length (amountCommitment ?args) = 33 \<and> length (toBuffer (stealthPubkey ?args)) = 32
      \<and> length (ephemeralPubkey ?args) = 33 \<and> length (viewingKeyHash ?args) = 32
      \<and> length (encryptedAmount ?args) < 2 ^ 32 \<and> length (proof' ?args) < 2 ^ 32
      \<and> 0 \<le> actualAmount ?args \<and> actualAmount ?args < 2 ^ 64"
    by (simp add: toBuffer_def)
  have e: "le_bytes 4 64 = [64, 0, 0, 0]" by (simp add: le_bytes_4 le_bytes_2)
  have p: "le_bytes 4 128 = [128, 0, 0, 0]" by (simp add: le_bytes_4 le_bytes_2)
  have a: "le_bytes 8 1000000 = [64, 66, 15, 0, 0, 0, 0, 0]"
    by (simp add: le_bytes_8 le_bytes_4 le_bytes_2)
  from encodeShieldedTransferData_layout [of ?args, THEN conjunct1] hyp
  have "encodeShieldedTransferData ?args =
          Inr (discriminator @ Buffer_from (amountCommitment ?args)
               @ toBuffer (stealthPubkey ?args) @ Buffer_from (ephemeralPubkey ?args)
               @ Buffer_from (viewingKeyHash ?args)
               @ le_bytes 4 (length (encryptedAmount ?args)) @ encryptedAmount ?args
               @ le_bytes 4 (length (proof' ?args)) @ proof' ?args
               @ le_bytes 8 (nat (actualAmount ?args)))"
    by blast
  then show ?thesis
    by (simp add: Buffer_from_def toBuffer_def e p a discriminator_def)
qed

text \<open>
  C2. For a config account laid out as an 8-byte discriminator followed by the authority
  (32 bytes), the fee collector (32 bytes), the fee in basis points as u16 little-endian,
  the paused byte, the transfer count as u64 little-endian and the bump byte (and whatever
  follows), \<open>fetchConfig\<close> returns exactly these values: after the discriminator the
  authority is read at bytes 0-31, the fee collector at 32-63, the fee at 64, the paused
  flag at 66 (true exactly for the byte 1), the transfer count at 67 and the bump at 75.
\<close>

theorem fetchConfig_decodes_layout:
  assumes "length disc = 8" "length auth = 32" "length fc = 32" "fee < 2 ^ 16" "tt < 2 ^ 64"
    and "raw = disc @ auth @ fc @ le_bytes 2 fee @ [p] @ le_bytes 8 tt @ [b] @ rest"
  shows "fetchConfig (Inr (Some raw))
     = Some \<lparr> authority = auth, feeCollector = fc, feeBps = fee, paused = (p = 1),
              totalTransfers = tt, bump = Some b \<rparr>
   \<and> slice (slice_from raw 8) 0 32 = auth
   \<and> slice (slice_from raw 8) 32 64 = fc
   \<and> readUInt16LE (slice_from raw 8) 64 = Inr fee
   \<and> at_index (slice_from raw 8) 66 = Some p
   \<and> readBigUInt64LE (slice_from raw 8) 67 = Inr tt
   \<and> at_index (slice_from raw 8) 75 = Some b"
proof -
  have decoded: "fetchConfig (Inr (Some raw))
     = Some \<lparr> authority = auth, feeCollector = fc, feeBps = fee, paused = (p = 1),
              totalTransfers = tt, bump = Some b \<rparr>"
    unfolding assms(6) using assms(1-5) by (rule fetchConfig_layout)
  have data: "slice_from raw 8 = auth @ fc @ le_bytes 2 fee @ [p] @ le_bytes 8 tt @ [b] @ rest"
    using assms(1,6) by (simp add: slice_from_def)
  have fields: "slice (slice_from raw 8) 0 32 = auth" "slice (slice_from raw 8) 32 64 = fc"
    "readUInt16LE (slice_from raw 8) 64 = Inr fee"
    "readBigUInt64LE (slice_from raw 8) 67 = Inr tt"
    unfolding data using assms(2-5)
    by (simp_all add: slice_def readUInt16LE_def readBigUInt64LE_def length_le_bytes
        le_nat_2 le_nat_8)
  have bytes: "at_index (slice_from raw 8) 66 = Some p" "at_index (slice_from raw 8) 75 = Some b"
    unfolding data using assms(2,3)
    by (simp_all add: at_index_def length_le_bytes nth_append)
  from decoded fields bytes show ?thesis by simp
qed

theorem fetchConfig_decodes_layout_witness:
  "fetchConfig (Inr (Some (replicate 8 170 @ replicate 32 1 @ replicate 32 2 @ le_bytes 2 30
       @ [1] @ le_bytes 8 5 @ [254] @ [])))
     = Some \<lparr> authority = replicate 32 1, feeCollector = replicate 32 2, feeBps = 30,
              paused = True, totalTransfers = 5, bump = Some 254 \<rparr>"
proof -
  have "fetchConfig (Inr (Some (replicate 8 170 @ replicate 32 1 @ replicate 32 2
          @ le_bytes 2 30 @ [1] @ le_bytes 8 5 @ [254] @ [])))
     = Some \<lparr> authority = replicate 32 1, feeCollector = replicate 32 2, feeBps = 30,
              paused = ((1 :: byte) = 1), totalTransfers = 5, bump = Some 254 \<rparr>"
    by (rule fetchConfig_decodes_layout [THEN conjunct1]) simp_all
  then show ?thesis by simp
qed

text \<open>
  C3 as stated fails: there is no truncated-account error. A buffer too short for the
  reads makes \<open>fetchConfig\<close> return null, the very value it returns when the account
  does not exist or the request fails; and a buffer one byte short of the layout (83
  bytes) is decoded without any error, its bump left undefined.
\<close>

theorem fetchConfig_truncated_counterexample:
  "fetchConfig (Inr (Some (replicate 40 0))) = None
   \<and> fetchConfig (Inr None) = None
   \<and> fetchConfig (Inl (Error ''fetch failed'')) = None
   \<and> fetchConfig (Inr (Some (replicate 83 0)))
     = Some \<lparr> authority = replicate 32 0, feeCollector = replicate 32 0, feeBps = 0,
              paused = False, totalTransfers = 0, bump = None \<rparr>"
  by code_simp

text \<open>
  C3, amended. For every config account buffer shorter than 83 bytes (8 for the
  discriminator and 75 up to the end of the transfer count), a read inside
  \<open>fetchConfig\<close> throws a \<open>RangeError\<close>, which its \<open>catch\<close> turns into null: the
  caller gets the same null as for a missing account or a failed request, and no decoded
  value.
\<close>

theorem fetchConfig_truncated_null:
  assumes "length raw < 83"
  shows "fetchConfig_try (Inr (Some raw)) = Inl RangeError
   \<and> fetchConfig (Inr (Some raw)) = None
   \<and> fetchConfig (Inr (Some raw)) = fetchConfig (Inr None)
   \<and> fetchConfig (Inr (Some raw)) = fetchConfig (Inl e)"
  using fetchConfig_try_truncated [OF assms]
  by (simp add: fetchConfig_def fetchConfig_try_def)

theorem fetchConfig_truncated_null_witness:
  "length (replicate 82 (0 :: byte)) < 83
   \<and> fetchConfig_try (Inr (Some (replicate 82 0))) = Inl RangeError
   \<and> fetchConfig (Inr (Some (replicate 82 0))) = None"
proof -
  have short: "length (replicate 82 (0 :: byte)) < 83" by simp
  from fetchConfig_truncated_null [OF short] short show ?thesis by blast
qed

section \<open>Properties of the transfer builder\<close>

lemma build_paused:
  assumes "fetchConfig (getAccountInfo (connection client) (getConfigPda deps (programId client)))
           = Some config" "paused config"
  shows "buildShieldedTransfer deps client sender params calls
         = (Inl (Error ''Program is paused''), calls @ [FetchConfig])"
  using assms
  by (simp add: buildShieldedTransfer_def bindS_def callS_def throwS_def)

lemma build_uninitialized:
  assumes "fetchConfig (getAccountInfo (connection client) (getConfigPda deps (programId client)))
           = None"
  shows "buildShieldedTransfer deps client sender params calls
         = (Inl (Error ''Program not initialized - config account not found''),
            calls @ [FetchConfig])"
  using assms
  by (simp add: buildShieldedTransfer_def bindS_def callS_def throwS_def)

lemma build_order:
  "\<exists>steps. snd (buildShieldedTransfer deps client sender params calls) = calls @ steps
     \<and> prefix steps [FetchConfig, GenerateEphemeralKeyPair, DeriveSharedSecret,
          CreateCommitment, EncryptAmount, ComputeViewingKeyHash, GenerateMockProof,
          EncodeShieldedTransferData, GetLatestBlockhash]
     \<and> (\<forall>r. fst (buildShieldedTransfer deps client sender params calls) = Inr r \<longrightarrow>
           steps = [FetchConfig, GenerateEphemeralKeyPair, DeriveSharedSecret,
          CreateCommitment, EncryptAmount, ComputeViewingKeyHash, GenerateMockProof,
          EncodeShieldedTransferData, GetLatestBlockhash])"
  by (auto simp: buildShieldedTransfer_def bindS_def callS_def throwS_def liftS_def returnS_def
      Let_def split: option.splits sum.splits)

lemma build_success:
  assumes cfg: "fetchConfig (getAccountInfo (connection client)
                   (getConfigPda deps (programId client))) = Some config"
    and active: "\<not> paused config"
    and lam: "lamportsOf deps (param_amount params) = Inr lamports"
    and kp: "generateEphemeralKeyPair deps = Inr kp"
    and ss: "deriveSharedSecret deps (privateKey kp) (recipientSpendingKey params) = Inr ss"
    and cm: "createCommitment deps lamports = Inr cm"
    and en: "encryptAmount deps lamports ss = Inr en"
    and vk: "computeViewingKeyHash deps (recipientViewingKey params) = Inr vk"
    and pr: "generateMockProof deps (commitment cm) (blindingFactor cm) lamports = Inr pr"
    and enc: "encodeShieldedTransferData
                 \<lparr> amountCommitment = Array_from (commitment cm),
                   stealthPubkey = param_stealthPubkey params,
                   ephemeralPubkey = Array_from (publicKey kp),
                   viewingKeyHash = Array_from vk,
                   encryptedAmount = nonce en @ ciphertext en,
                   proof' = pr,
                   actualAmount = lamports \<rparr> = Inr dat"
    and bh: "getLatestBlockhash (connection client) = Inr bh"
  shows "buildShieldedTransfer deps client sender params calls =
     (Inr \<lparr> transaction =
             \<lparr> instructions =
                 [\<lparr> ix_keys =
                     [\<lparr> pubkey = getConfigPda deps (programId client), isSigner = False,
                        isWritable = True \<rparr>,
                      \<lparr> pubkey = getTransferRecordPda deps sender (totalTransfers config)
                                   (programId client),
                        isSigner = False, isWritable = True \<rparr>,
                      \<lparr> pubkey = sender, isSigner = True, isWritable = True \<rparr>,
                      \<lparr> pubkey = param_stealthPubkey params, isSigner = False,
                        isWritable = True \<rparr>,
                      \<lparr> pubkey = feeCollector config, isSigner = False,
                        isWritable = True \<rparr>,
                      \<lparr> pubkey = systemProgramId deps, isSigner = False,
                        isWritable = False \<rparr>],
                    ix_programId = programId client,
                    ix_data = dat \<rparr>],
               recentBlockhash = Some bh, feePayer = Some sender \<rparr>,
           transferRecord =
             getTransferRecordPda deps sender (totalTransfers config) (programId client),
           built_ephemeralPubkey = publicKey kp \<rparr>,
      calls @ [FetchConfig, GenerateEphemeralKeyPair, DeriveSharedSecret,
          CreateCommitment, EncryptAmount, ComputeViewingKeyHash, GenerateMockProof,
          EncodeShieldedTransferData, GetLatestBlockhash])"
  using assms
  by (simp add: buildShieldedTransfer_def bindS_def callS_def throwS_def liftS_def returnS_def
      Let_def)

text \<open>
  With an unpaused config, collaborators that all succeed, lengths that fit a u32 and an
  amount that fits a u64, the encoder returns and the build succeeds with all nine calls.
\<close>

lemma build_attains_success:
  assumes "fetchConfig (getAccountInfo (connection client)
              (getConfigPda deps (programId client))) = Some config
      \<and> \<not> paused config
      \<and> lamportsOf deps (param_amount params) = Inr lamports
      \<and> 0 \<le> lamports \<and> lamports < 2 ^ 64
      \<and> generateEphemeralKeyPair deps = Inr kp
      \<and> deriveSharedSecret deps (privateKey kp) (recipientSpendingKey params) = Inr ss
      \<and> createCommitment deps lamports = Inr cm
      \<and> encryptAmount deps lamports ss = Inr en
      \<and> length (nonce en @ ciphertext en) < 2 ^ 32
      \<and> computeViewingKeyHash deps (recipientViewingKey params) = Inr vk
      \<and> generateMockProof deps (commitment cm) (blindingFactor cm) lamports = Inr pr
      \<and> length pr < 2 ^ 32
      \<and> getLatestBlockhash (connection client) = Inr bh"
  shows "\<exists>dat.
      encodeShieldedTransferData
        \<lparr> amountCommitment = Array_from (commitment cm),
          stealthPubkey = param_stealthPubkey params,
          ephemeralPubkey = Array_from (publicKey kp),
          viewingKeyHash = Array_from vk,
          encryptedAmount = nonce en @ ciphertext en,
          proof' = pr,
          actualAmount = lamports \<rparr> = Inr dat
      \<and> buildShieldedTransfer deps client sender params calls =
        (Inr \<lparr> transaction =
                \<lparr> instructions =
                    [\<lparr> ix_keys =
                        [\<lparr> pubkey = getConfigPda deps (programId client),
                           isSigner = False, isWritable = True \<rparr>,
                         \<lparr> pubkey = getTransferRecordPda deps sender
                                      (totalTransfers config) (programId client),
                           isSigner = False, isWritable = True \<rparr>,
                         \<lparr> pubkey = sender, isSigner = True, isWritable = True \<rparr>,
                         \<lparr> pubkey = param_stealthPubkey params, isSigner = False,
                           isWritable = True \<rparr>,
                         \<lparr> pubkey = feeCollector config, isSigner = False,
                           isWritable = True \<rparr>,
                         \<lparr> pubkey = systemProgramId deps, isSigner = False,
                           isWritable = False \<rparr>],
                       ix_programId = programId client,
                       ix_data = dat \<rparr>],
                  recentBlockhash = Some bh, feePayer = Some sender \<rparr>,
              transferRecord =
                getTransferRecordPda deps sender (totalTransfers config) (programId client),
              built_ephemeralPubkey = publicKey kp \<rparr>,
         calls @ [FetchConfig, GenerateEphemeralKeyPair, DeriveSharedSecret,
             CreateCommitment, EncryptAmount, ComputeViewingKeyHash, GenerateMockProof,
             EncodeShieldedTransferData, GetLatestBlockhash])"
proof -
  let ?args = "\<lparr> amountCommitment = Array_from (commitment cm),
          stealthPubkey = param_stealthPubkey params,
          ephemeralPubkey = Array_from (publicKey kp),
          viewingKeyHash = Array_from vk,
          encryptedAmount = nonce en @ ciphertext en,
          proof' = pr,
          actualAmount = lamports \<rparr>"
  have "\<exists>dat. encodeShieldedTransferData ?args = Inr dat"
    using assms by (intro encode_returns) simp_all
  then obtain dat where dat: "encodeShieldedTransferData ?args = Inr dat" ..
  from assms have
    "fetchConfig (getAccountInfo (connection client)
        (getConfigPda deps (programId client))) = Some config"
    "\<not> paused config"
    "lamportsOf deps (param_amount params) = Inr lamports"
    "generateEphemeralKeyPair deps = Inr kp"
    "deriveSharedSecret deps (privateKey kp) (recipientSpendingKey params) = Inr ss"
    "createCommitment deps lamports = Inr cm"
    "encryptAmount deps lamports ss = Inr en"
    "computeViewingKeyHash deps (recipientViewingKey params) = Inr vk"
    "generateMockProof deps (commitment cm) (blindingFactor cm) lamports = Inr pr"
    "getLatestBlockhash (connection client) = Inr bh"
    by blast+
  from build_success [OF this(1-9) dat this(10), of sender calls] dat
  show ?thesis by blast
qed

text \<open>
  C4. In every invocation of \<open>buildShieldedTransfer\<close> the calls made are an initial
  part of the sequence fetch-config, generate-ephemeral-key, derive-shared-secret,
  create-commitment, encrypt-amount, viewing-key-hash, proof, encode, latest-blockhash, in
  this order, and a successful invocation makes all of them. The check of the paused flag
  stands between the fetch and the first crypto call: when the fetched config is paused,
  the invocation ends with the error "Program is paused" having made the fetch and nothing
  else (no key generation, commitment or encryption), and likewise when no config is
  found. And the steps are really run: when the fetched config is not paused, every
  collaborator succeeds, the two lengths fit a u32 and the amount fits a u64, the encoder
  returns and the invocation succeeds, having made all nine calls in this order, with the
  encoded bytes as the data of the one instruction of the transaction it returns.
\<close>

theorem buildShieldedTransfer_order:
  "(\<forall>config.
      fetchConfig (getAccountInfo (connection client) (getConfigPda deps (programId client)))
        = Some config \<and> paused config
      \<longrightarrow> buildShieldedTransfer deps client sender params calls
          = (Inl (Error ''Program is paused''), calls @ [FetchConfig]))
   \<and> (fetchConfig (getAccountInfo (connection client) (getConfigPda deps (programId client)))
        = None
      \<longrightarrow> buildShieldedTransfer deps client sender params calls
          = (Inl (Error ''Program not initialized - config account not found''),
             calls @ [FetchConfig]))
   \<and> (\<exists>steps. snd (buildShieldedTransfer deps client sender params calls) = calls @ steps
        \<and> prefix steps [FetchConfig, GenerateEphemeralKeyPair, DeriveSharedSecret,
             CreateCommitment, EncryptAmount, ComputeViewingKeyHash, GenerateMockProof,
             EncodeShieldedTransferData, GetLatestBlockhash]
        \<and> (\<forall>r. fst (buildShieldedTransfer deps client sender params calls) = Inr r \<longrightarrow>
              steps = [FetchConfig, GenerateEphemeralKeyPair, DeriveSharedSecret,
                CreateCommitment, EncryptAmount, ComputeViewingKeyHash, GenerateMockProof,
                EncodeShieldedTransferData, GetLatestBlockhash]))
   \<and> (\<forall>config lamports kp ss cm en vk pr bh.
        fetchConfig (getAccountInfo (connection client)
            (getConfigPda deps (programId client))) = Some config
        \<and> \<not> paused config
        \<and> lamportsOf deps (param_amount params) = Inr lamports
        \<and> 0 \<le> lamports \<and> lamports < 2 ^ 64
        \<and> generateEphemeralKeyPair deps = Inr kp
        \<and> deriveSharedSecret deps (privateKey kp) (recipientSpendingKey params) = Inr ss
        \<and> createCommitment deps lamports = Inr cm
        \<and> encryptAmount deps lamports ss = Inr en
        \<and> length (nonce en @ ciphertext en) < 2 ^ 32
        \<and> computeViewingKeyHash deps (recipientViewingKey params) = Inr vk
        \<and> generateMockProof deps (commitment cm) (blindingFactor cm) lamports = Inr pr
        \<and> length pr < 2 ^ 32
        \<and> getLatestBlockhash (connection client) = Inr bh
      \<longrightarrow> (\<exists>dat.
            encodeShieldedTransferData
              \<lparr> amountCommitment = Array_from (commitment cm),
                stealthPubkey = param_stealthPubkey params,
                ephemeralPubkey = Array_from (publicKey kp),
                viewingKeyHash = Array_from vk,
                encryptedAmount = nonce en @ ciphertext en,
                proof' = pr,
                actualAmount = lamports \<rparr> = Inr dat
            \<and> buildShieldedTransfer deps client sender params calls =
              (Inr \<lparr> transaction =
                      \<lparr> instructions =
                          [\<lparr> ix_keys =
                              [\<lparr> pubkey = getConfigPda deps (programId client),
                                 isSigner = False, isWritable = True \<rparr>,
                               \<lparr> pubkey = getTransferRecordPda deps sender
                                            (totalTransfers config) (programId client),
                                 isSigner = False, isWritable = True \<rparr>,
                               \<lparr> pubkey = sender, isSigner = True, isWritable = True \<rparr>,
                               \<lparr> pubkey = param_stealthPubkey params, isSigner = False,
                                 isWritable = True \<rparr>,
                               \<lparr> pubkey = feeCollector config, isSigner = False,
                                 isWritable = True \<rparr>,
                               \<lparr> pubkey = systemProgramId deps, isSigner = False,
                                 isWritable = False \<rparr>],
                             ix_programId = programId client,
                             ix_data = dat \<rparr>],
                        recentBlockhash = Some bh, feePayer = Some sender \<rparr>,
                    transferRecord =
                      getTransferRecordPda deps sender (totalTransfers config)
                        (programId client),
                    built_ephemeralPubkey = publicKey kp \<rparr>,
               calls @ [FetchConfig, GenerateEphemeralKeyPair, DeriveSharedSecret,
                   CreateCommitment, EncryptAmount, ComputeViewingKeyHash, GenerateMockProof,
                   EncodeShieldedTransferData, GetLatestBlockhash])))"
proof (intro conjI allI impI)
  fix config
  assume "fetchConfig (getAccountInfo (connection client)
            (getConfigPda deps (programId client))) = Some config \<and> paused config"
  then show "buildShieldedTransfer deps client sender params calls
          = (Inl (Error ''Program is paused''), calls @ [FetchConfig])"
    using build_paused [of client deps config sender params calls] by blast
next
  assume "fetchConfig (getAccountInfo (connection client)
            (getConfigPda deps (programId client))) = None"
  then show "buildShieldedTransfer deps client sender params calls
          = (Inl (Error ''Program not initialized - config account not found''),
             calls @ [FetchConfig])"
    by (rule build_uninitialized)
next
  show "\<exists>steps. snd (buildShieldedTransfer deps client sender params calls) = calls @ steps
        \<and> prefix steps [FetchConfig, GenerateEphemeralKeyPair, DeriveSharedSecret,
             CreateCommitment, EncryptAmount, ComputeViewingKeyHash, GenerateMockProof,
             EncodeShieldedTransferData, GetLatestBlockhash]
        \<and> (\<forall>r. fst (buildShieldedTransfer deps client sender params calls) = Inr r \<longrightarrow>
              steps = [FetchConfig, GenerateEphemeralKeyPair, DeriveSharedSecret,
                CreateCommitment, EncryptAmount, ComputeViewingKeyHash, GenerateMockProof,
                EncodeShieldedTransferData, GetLatestBlockhash])"
    by (rule build_order)
next
  fix config lamports kp ss cm en vk pr bh
  assume "fetchConfig (getAccountInfo (connection client)
            (getConfigPda deps (programId client))) = Some config
        \<and> \<not> paused config
        \<and> lamportsOf deps (param_amount params) = Inr lamports
        \<and> 0 \<le> lamports \<and> lamports < 2 ^ 64
        \<and> generateEphemeralKeyPair deps = Inr kp
        \<and> deriveSharedSecret deps (privateKey kp) (recipientSpendingKey params) = Inr ss
        \<and> createCommitment deps lamports = Inr cm
        \<and> encryptAmount deps lamports ss = Inr en
        \<and> length (nonce en @ ciphertext en) < 2 ^ 32
        \<and> computeViewingKeyHash deps (recipientViewingKey params) = Inr vk
        \<and> generateMockProof deps (commitment cm) (blindingFactor cm) lamports = Inr pr
        \<and> length pr < 2 ^ 32
        \<and> getLatestBlockhash (connection client) = Inr bh"
  then show "\<exists>dat.
            encodeShieldedTransferData
              \<lparr> amountCommitment = Array_from (commitment cm),
                stealthPubkey = param_stealthPubkey params,
                ephemeralPubkey = Array_from (publicKey kp),
                viewingKeyHash = Array_from vk,
                encryptedAmount = nonce en @ ciphertext en,
                proof' = pr,
                actualAmount = lamports \<rparr> = Inr dat
            \<and> buildShieldedTransfer deps client sender params calls =
              (Inr \<lparr> transaction =
                      \<lparr> instructions =
                          [\<lparr> ix_keys =
                              [\<lparr> pubkey = getConfigPda deps (programId client),
                                 isSigner = False, isWritable = True \<rparr>,
                               \<lparr> pubkey = getTransferRecordPda deps sender
                                            (totalTransfers config) (programId client),
                                 isSigner = False, isWritable = True \<rparr>,
                               \<lparr> pubkey = sender, isSigner = True, isWritable = True \<rparr>,
                               \<lparr> pubkey = param_stealthPubkey params, isSigner = False,
                                 isWritable = True \<rparr>,
                               \<lparr> pubkey = feeCollector config, isSigner = False,
                                 isWritable = True \<rparr>,
                               \<lparr> pubkey = systemProgramId deps, isSigner = False,
                                 isWritable = False \<rparr>],
                             ix_programId = programId client,
                             ix_data = dat \<rparr>],
                        recentBlockhash = Some bh, feePayer = Some sender \<rparr>,
                    transferRecord =
                      getTransferRecordPda deps sender (totalTransfers config)
                        (programId client),
                    built_ephemeralPubkey = publicKey kp \<rparr>,
               calls @ [FetchConfig, GenerateEphemeralKeyPair, DeriveSharedSecret,
                   CreateCommitment, EncryptAmount, ComputeViewingKeyHash, GenerateMockProof,
                   EncodeShieldedTransferData, GetLatestBlockhash])"
    by (rule build_attains_success)
qed

text \<open>
  Two runs on a client whose collaborators all succeed. With a paused config account
  (paused byte 1) the build stops after the fetch. With the same account unpaused (paused
  byte 0) the build succeeds: nine calls in order, and an instruction of 346 bytes (an
  encrypted amount of 24 + 40 bytes and a proof of 128 bytes).
\<close>

theorem buildShieldedTransfer_order_witness:
  "buildShieldedTransfer
     \<lparr> lamportsOf = (\<lambda>a. Inr 1000000),
       generateEphemeralKeyPair =
         Inr \<lparr> privateKey = replicate 32 1, publicKey = replicate 33 2 \<rparr>,
       deriveSharedSecret = (\<lambda>a b. Inr (replicate 32 3)),
       createCommitment =
         (\<lambda>l. Inr \<lparr> commitment = replicate 33 4, blindingFactor = replicate 32 5 \<rparr>),
       encryptAmount =
         (\<lambda>l s. Inr \<lparr> nonce = replicate 24 6, ciphertext = replicate 40 7 \<rparr>),
       computeViewingKeyHash = (\<lambda>k. Inr (replicate 32 8)),
       generateMockProof = (\<lambda>c b l. Inr (replicate 128 9)),
       getConfigPda = (\<lambda>p. replicate 32 10),
       getTransferRecordPda = (\<lambda>s n p. replicate 32 11),
       systemProgramId = replicate 32 0 \<rparr>
     \<lparr> connection =
         \<lparr> getAccountInfo =
             (\<lambda>a. Inr (Some (replicate 8 170 @ replicate 32 1 @ replicate 32 2
                @ le_bytes 2 30 @ [1] @ le_bytes 8 5 @ [254] @ []))),
           getLatestBlockhash = Inr ''blockhash'' \<rparr>,
       programId = replicate 32 12 \<rparr>
     (replicate 32 13)
     \<lparr> param_amount = Finite 1, param_stealthPubkey = replicate 32 14,
       recipientSpendingKey = replicate 33 15, recipientViewingKey = replicate 33 16,
       param_memo = None \<rparr>
     []
   = (Inl (Error ''Program is paused''), [FetchConfig])
   \<and> (\<exists>dat. length dat = 346
        \<and> buildShieldedTransfer
             \<lparr> lamportsOf = (\<lambda>a. Inr 1000000),
               generateEphemeralKeyPair =
                 Inr \<lparr> privateKey = replicate 32 1, publicKey = replicate 33 2 \<rparr>,
               deriveSharedSecret = (\<lambda>a b. Inr (replicate 32 3)),
               createCommitment =
                 (\<lambda>l. Inr \<lparr> commitment = replicate 33 4,
                              blindingFactor = replicate 32 5 \<rparr>),
               encryptAmount =
                 (\<lambda>l s. Inr \<lparr> nonce = replicate 24 6, ciphertext = replicate 40 7 \<rparr>),
               computeViewingKeyHash = (\<lambda>k. Inr (replicate 32 8)),
               generateMockProof = (\<lambda>c b l. Inr (replicate 128 9)),
               getConfigPda = (\<lambda>p. replicate 32 10),
               getTransferRecordPda = (\<lambda>s n p. replicate 32 11),
               systemProgramId = replicate 32 0 \<rparr>
             \<lparr> connection =
                 \<lparr> getAccountInfo =
                     (\<lambda>a. Inr (Some (replicate 8 170 @ replicate 32 1 @ replicate 32 2
                        @ le_bytes 2 30 @ [0] @ le_bytes 8 5 @ [254] @ []))),
                   getLatestBlockhash = Inr ''blockhash'' \<rparr>,
               programId = replicate 32 12 \<rparr>
             (replicate 32 13)
             \<lparr> param_amount = Finite 1, param_stealthPubkey = replicate 32 14,
               recipientSpendingKey = replicate 33 15, recipientViewingKey = replicate 33 16,
               param_memo = None \<rparr>
             []
          = (Inr \<lparr> transaction =
                  \<lparr> instructions =
                      [\<lparr> ix_keys =
                          [\<lparr> pubkey = replicate 32 10, isSigner = False,
                             isWritable = True \<rparr>,
                           \<lparr> pubkey = replicate 32 11, isSigner = False,
                             isWritable = True \<rparr>,
                           \<lparr> pubkey = replicate 32 13, isSigner = True,
                             isWritable = True \<rparr>,
                           \<lparr> pubkey = replicate 32 14, isSigner = False,
                             isWritable = True \<rparr>,
                           \<lparr> pubkey = replicate 32 2, isSigner = False,
                             isWritable = True \<rparr>,
                           \<lparr> pubkey = replicate 32 0, isSigner = False,
                             isWritable = False \<rparr>],
                         ix_programId = replicate 32 12,
                         ix_data = dat \<rparr>],
                    recentBlockhash = Some ''blockhash'',
                    feePayer = Some (replicate 32 13) \<rparr>,
                transferRecord = replicate 32 11,
                built_ephemeralPubkey = replicate 33 2 \<rparr>,
             [FetchConfig, GenerateEphemeralKeyPair, DeriveSharedSecret,
              CreateCommitment, EncryptAmount, ComputeViewingKeyHash, GenerateMockProof,
              EncodeShieldedTransferData, GetLatestBlockhash]))"
proof -
  let ?deps = "\<lparr> lamportsOf = (\<lambda>a. Inr 1000000),
       generateEphemeralKeyPair =
         Inr \<lparr> privateKey = replicate 32 1, publicKey = replicate 33 2 \<rparr>,
       deriveSharedSecret = (\<lambda>a b. Inr (replicate 32 3)),
       createCommitment =
         (\<lambda>l. Inr \<lparr> commitment = replicate 33 4, blindingFactor = replicate 32 5 \<rparr>),
       encryptAmount =
         (\<lambda>l s. Inr \<lparr> nonce = replicate 24 6, ciphertext = replicate 40 7 \<rparr>),
       computeViewingKeyHash = (\<lambda>k. Inr (replicate 32 8)),
       generateMockProof = (\<lambda>c b l. Inr (replicate 128 9)),
       getConfigPda = (\<lambda>p. replicate 32 10),
       getTransferRecordPda = (\<lambda>s n p. replicate 32 11),
       systemProgramId = replicate 32 0 \<rparr>"
  let ?sender = "replicate 32 13 :: PublicKey"
  let ?params = "\<lparr> param_amount = Finite 1, param_stealthPubkey = replicate 32 14,
       recipientSpendingKey = replicate 33 15, recipientViewingKey = replicate 33 16,
       param_memo = None \<rparr>"
  let ?raw = "\<lambda>p :: byte. replicate 8 170 @ replicate 32 1 @ replicate 32 2
                @ le_bytes 2 30 @ [p] @ le_bytes 8 5 @ [254] @ []"
  let ?client = "\<lambda>p :: byte. \<lparr> connection =
         \<lparr> getAccountInfo = (\<lambda>a :: PublicKey. Inr (Some (?raw p))),
           getLatestBlockhash = Inr ''blockhash'' \<rparr>,
       programId = replicate 32 12 \<rparr>"
  let ?config = "\<lambda>p :: byte.
       \<lparr> authority = replicate 32 1, feeCollector = replicate 32 2, feeBps = 30,
         paused = (p = 1), totalTransfers = 5, bump = Some 254 \<rparr>"
  have decoded: "fetchConfig (Inr (Some (?raw p))) = Some (?config p)" for p
    by (rule fetchConfig_layout) simp_all
  have fetched:
    "fetchConfig (getAccountInfo (connection (?client 1))
        (getConfigPda ?deps (programId (?client 1))))
       = Some (?config 1) \<and> paused (?config 1)"
    using decoded [of 1] by simp
  from buildShieldedTransfer_order [of "?client 1" ?deps ?sender ?params "[]",
      THEN conjunct1, rule_format, OF fetched]
  have stopped: "buildShieldedTransfer ?deps (?client 1) ?sender ?params []
                 = (Inl (Error ''Program is paused''), [FetchConfig])"
    by simp
  let ?kp = "\<lparr> privateKey = replicate 32 1, publicKey = replicate 33 2 \<rparr>"
  let ?cm = "\<lparr> commitment = replicate 33 4, blindingFactor = replicate 32 5 \<rparr>"
  let ?en = "\<lparr> nonce = replicate 24 6, ciphertext = replicate 40 7 \<rparr>"
  have ready:
    "fetchConfig (getAccountInfo (connection (?client 0))
        (getConfigPda ?deps (programId (?client 0)))) = Some (?config 0)
     \<and> \<not> paused (?config 0)
     \<and> lamportsOf ?deps (param_amount ?params) = Inr 1000000
     \<and> 0 \<le> (1000000 :: int) \<and> (1000000 :: int) < 2 ^ 64
     \<and> generateEphemeralKeyPair ?deps = Inr ?kp
     \<and> deriveSharedSecret ?deps (privateKey ?kp) (recipientSpendingKey ?params)
         = Inr (replicate 32 3)
     \<and> createCommitment ?deps 1000000 = Inr ?cm
     \<and> encryptAmount ?deps 1000000 (replicate 32 3) = Inr ?en
     \<and> length (nonce ?en @ ciphertext ?en) < 2 ^ 32
     \<and> computeViewingKeyHash ?deps (recipientViewingKey ?params) = Inr (replicate 32 8)
     \<and> generateMockProof ?deps (commitment ?cm) (blindingFactor ?cm) 1000000
         = Inr (replicate 128 9)
     \<and> length (replicate 128 (9 :: byte)) < 2 ^ 32
     \<and> getLatestBlockhash (connection (?client 0)) = Inr ''blockhash''"
    using decoded [of 0] by simp
  from buildShieldedTransfer_order [of "?client 0" ?deps ?sender ?params "[]",
      THEN conjunct2, THEN conjunct2, THEN conjunct2, rule_format, OF ready]
  obtain dat where enc: "encodeShieldedTransferData
        \<lparr> amountCommitment = Array_from (commitment ?cm),
          stealthPubkey = param_stealthPubkey ?params,
          ephemeralPubkey = Array_from (publicKey ?kp),
          viewingKeyHash = Array_from (replicate 32 8),
          encryptedAmount = nonce ?en @ ciphertext ?en,
          proof' = replicate 128 9,
          actualAmount = 1000000 \<rparr> = Inr dat"
    and built: "buildShieldedTransfer ?deps (?client 0) ?sender ?params [] =
        (Inr \<lparr> transaction =
                \<lparr> instructions =
                    [\<lparr> ix_keys =
                        [\<lparr> pubkey = getConfigPda ?deps (programId (?client 0)),
                           isSigner = False, isWritable = True \<rparr>,
                         \<lparr> pubkey = getTransferRecordPda ?deps ?sender
                                      (totalTransfers (?config 0)) (programId (?client 0)),
                           isSigner = False, isWritable = True \<rparr>,
                         \<lparr> pubkey = ?sender, isSigner = True, isWritable = True \<rparr>,
                         \<lparr> pubkey = param_stealthPubkey ?params, isSigner = False,
                           isWritable = True \<rparr>,
                         \<lparr> pubkey = feeCollector (?config 0), isSigner = False,
                           isWritable = True \<rparr>,
                         \<lparr> pubkey = systemProgramId ?deps, isSigner = False,
                           isWritable = False \<rparr>],
                       ix_programId = programId (?client 0),
                       ix_data = dat \<rparr>],
                  recentBlockhash = Some ''blockhash'', feePayer = Some ?sender \<rparr>,
              transferRecord =
                getTransferRecordPda ?deps ?sender (totalTransfers (?config 0))
                  (programId (?client 0)),
              built_ephemeralPubkey = publicKey ?kp \<rparr>,
         [] @ [FetchConfig, GenerateEphemeralKeyPair, DeriveSharedSecret,
             CreateCommitment, EncryptAmount, ComputeViewingKeyHash, GenerateMockProof,
             EncodeShieldedTransferData, GetLatestBlockhash])"
    by blast
  have len: "length dat = 346"
    using encode_length [OF enc] by simp
  from built have built': "buildShieldedTransfer ?deps (?client 0) ?sender ?params [] =
        (Inr \<lparr> transaction =
                \<lparr> instructions =
                    [\<lparr> ix_keys =
                        [\<lparr> pubkey = replicate 32 10, isSigner = False, isWritable = True \<rparr>,
                         \<lparr> pubkey = replicate 32 11, isSigner = False, isWritable = True \<rparr>,
                         \<lparr> pubkey = replicate 32 13, isSigner = True, isWritable = True \<rparr>,
                         \<lparr> pubkey = replicate 32 14, isSigner = False,
                           isWritable = True \<rparr>,
                         \<lparr> pubkey = replicate 32 2, isSigner = False, isWritable = True \<rparr>,
                         \<lparr> pubkey = replicate 32 0, isSigner = False,
                           isWritable = False \<rparr>],
                       ix_programId = replicate 32 12,
                       ix_data = dat \<rparr>],
                  recentBlockhash = Some ''blockhash'', feePayer = Some (replicate 32 13) \<rparr>,
              transferRecord = replicate 32 11,
              built_ephemeralPubkey = replicate 33 2 \<rparr>,
         [FetchConfig, GenerateEphemeralKeyPair, DeriveSharedSecret,
             CreateCommitment, EncryptAmount, ComputeViewingKeyHash, GenerateMockProof,
             EncodeShieldedTransferData, GetLatestBlockhash])"
    by simp
  from stopped len built' show ?thesis
    by blast
qed

end
